theory Spec2Isabelle
  imports Complex_Main
begin

section \<open>Model 6: CBV baseline integral (src/Model6.cpp)\<close>

text \<open>
  Conventions of the embedding.
  \<^item> A C \<^verbatim>\<open>double\<close> is a \<^typ>\<open>real\<close>: comparisons and arithmetic are exact, there is
    no rounding, no NaN and no infinity.
  \<^item> A C \<^verbatim>\<open>int\<close> is an \<^typ>\<open>int\<close>: all indices stay far below \<open>2^31\<close> (the frame
    count is bounded by the buffer size \<^verbatim>\<open>DEF_MAXNUMTMS\<close>), so no wrap-around occurs.
  \<^item> A \<^verbatim>\<open>PDOUBLE\<close> is the view of memory through that pointer, a function from the
    (signed) offset to the cell: \<^verbatim>\<open>p[t]\<close> is \<open>p t\<close> and \<^verbatim>\<open>p + k\<close> is
    \<open>\<lambda>t. p (k + t)\<close>. Cells outside the array a pointer was made from are whatever
    memory holds there.
  \<^item> A local array (\<^verbatim>\<open>double Tac[DEF_MAXNUMTMS]\<close>) is a function from the index to
    the cell, holding on entry whatever the stack holds (a parameter of the model);
    the frame count is taken to fit the buffer.
  \<^item> The \<^verbatim>\<open>goto func_exit\<close> macros: \<^verbatim>\<open>xmsg(m)\<close> reports and leaves with the
    current \<^verbatim>\<open>res\<close>; \<^verbatim>\<open>xz(e)\<close> leaves when \<^verbatim>\<open>e\<close> is zero; \<^verbatim>\<open>xnz(e)\<close> leaves
    when \<^verbatim>\<open>e\<close> is not zero.
\<close>

subsection \<open>Constants\<close>

definition PASS_START :: int where
  "PASS_START = 2"

definition PRE_N_THR :: real where
  "PRE_N_THR = 95 / 100"

definition POST_N_THR :: real where
  "POST_N_THR = 95 / 100"

text \<open>Modelled from the spec: the macros \<^verbatim>\<open>ONE\<close> and \<^verbatim>\<open>ZERO\<close> of the absent header
  \<^verbatim>\<open>stdafx.h\<close>; the spec gives the clamp as \<open>0.01 < ratio < 1.0\<close> with value \<open>0\<close>
  otherwise, and the default normalisation as \<open>1.0\<close>.\<close>

definition ONE :: real where
  "ONE = 1"

definition ZERO :: real where
  "ZERO = 0"

subsection \<open>State\<close>

text \<open>The globals the host framework supplies to the model.\<close>

record framework =
  NumTms :: int
  AbsTarr :: "int \<Rightarrow> real"
  GlobalTac :: "int \<Rightarrow> real"
  NumRoiTac :: int
  RoiTacArr :: "int \<Rightarrow> int \<Rightarrow> real"
  demp_NoiseLevel :: real
  M6_FreeParm :: "int \<Rightarrow> real"

text \<open>The module's static variables. \<open>Tarr\<close> is a pointer that may be \<^verbatim>\<open>NULL\<close>.\<close>

record statics =
  AirThresh :: real
  WhiteMatterNorm :: real
  SkipTimes :: int
  wNumTms :: int
  pre_N :: int
  post_N :: int
  Tarr :: "(int \<Rightarrow> real) option"

text \<open>The framework functions the model calls; their code is not part of the module.
  \<open>PR_ArrStats a n\<close> is the pair (mean, standard deviation) of \<open>a[0..n-1]\<close>.\<close>

record collab =
  PR_MakeRelativeArr :: "(int \<Rightarrow> real) \<Rightarrow> int \<Rightarrow> (int \<Rightarrow> real) option"
  IsAir_ByMin :: "(int \<Rightarrow> real) \<Rightarrow> real \<Rightarrow> bool"
  PR_ArrStats :: "(int \<Rightarrow> real) \<Rightarrow> int \<Rightarrow> real \<times> real"
  CalculateIntegral :: "(int \<Rightarrow> real) \<Rightarrow> (int \<Rightarrow> real) \<Rightarrow> int \<Rightarrow> real"

text \<open>An array given by its contents, for concrete inputs: the cells of the list, and
  \<open>0\<close> in every cell outside it.\<close>

definition arr :: "real list \<Rightarrow> int \<Rightarrow> real" where
  "arr xs i = (if 0 \<le> i \<and> i < int (length xs) then xs ! nat i else 0)"

text \<open>The default free parameters, \<^verbatim>\<open>M6_FreeParmDefault = { 20,0 }\<close>: the
  background threshold multiplier and the number of initial time points to skip.\<close>

definition M6_FreeParmDefault :: "int \<Rightarrow> real" where
  "M6_FreeParmDefault = arr [20, 0]"

subsection \<open>FindBolusPosition\<close>

text \<open>The peak loop: \<^verbatim>\<open>for (t=1; t<wNumTms; t++) if (wTac[t]<msd) { msd=wTac[t]; b_peak=t; }\<close>,
  entered with \<open>t\<close>, \<open>msd\<close> and \<open>b_peak\<close>; it returns the final \<open>(msd, b_peak)\<close>.\<close>

function peak_loop :: "(int \<Rightarrow> real) \<Rightarrow> int \<Rightarrow> int \<Rightarrow> real \<Rightarrow> int \<Rightarrow> real \<times> int" where
  "peak_loop wTac n t msd b_peak =
     (if t < n then
        (if wTac t < msd then peak_loop wTac n (t + 1) (wTac t) t
         else peak_loop wTac n (t + 1) msd b_peak)
      else (msd, b_peak))"
  by pat_completeness auto
termination
  by (relation "measure (\<lambda>(wTac, n, t, msd, b_peak). nat (n - t))") auto

declare peak_loop.simps [simp del]

text \<open>The start loop:
  \<^verbatim>\<open>for (b_start=b_peak; b_start>pre_N; b_start--) if (wTac[b_start-1]>cutoff) break;\<close>,
  entered with \<open>b_start\<close>; it returns the final \<open>b_start\<close>.\<close>

function start_loop :: "(int \<Rightarrow> real) \<Rightarrow> int \<Rightarrow> real \<Rightarrow> int \<Rightarrow> int" where
  "start_loop wTac preN cutoff b_start =
     (if b_start > preN then
        (if wTac (b_start - 1) > cutoff then b_start
         else start_loop wTac preN cutoff (b_start - 1))
      else b_start)"
  by pat_completeness auto
termination
  by (relation "measure (\<lambda>(wTac, preN, cutoff, b_start). nat (b_start - preN))") auto

declare start_loop.simps [simp del]

text \<open>The end loop:
  \<^verbatim>\<open>for (b_end=b_peak+2; b_end<Last; b_end++) {
       if (wTac[b_end]>mx) mx = wTac[b_end];
       if ((wTac[b_end]>cutoff) || (wTac[b_end]<(mx-noise))) break; }\<close>,
  entered with \<open>b_end\<close> and \<open>mx\<close>; it returns the value of \<open>b_end\<close> on leaving the loop.\<close>

function end_loop :: "(int \<Rightarrow> real) \<Rightarrow> int \<Rightarrow> real \<Rightarrow> real \<Rightarrow> int \<Rightarrow> real \<Rightarrow> int" where
  "end_loop wTac Last cutoff noise b_end mx =
     (if b_end < Last then
        (let mx' = (if wTac b_end > mx then wTac b_end else mx) in
         if wTac b_end > cutoff \<or> wTac b_end < mx' - noise then b_end
         else end_loop wTac Last cutoff noise (b_end + 1) mx')
      else b_end)"
  by pat_completeness auto
termination
  by (relation "measure (\<lambda>(wTac, Last, cutoff, noise, b_end, mx). nat (Last - b_end))") auto

declare end_loop.simps [simp del]

text \<open>\<^verbatim>\<open>FindBolusPosition\<close> reads the statics \<open>pre_N\<close> and \<open>post_N\<close> and returns
  \<open>(*pBolusStart, *pBolusEnd)\<close>.\<close>

definition FindBolusPosition ::
  "statics \<Rightarrow> (int \<Rightarrow> real) \<Rightarrow> int \<Rightarrow> real \<Rightarrow> real \<Rightarrow> real \<Rightarrow> int \<times> int" where
  "FindBolusPosition s wTac n noise pre_bl post_bl =
     (let (msd, b_peak) = peak_loop wTac n 1 (wTac 0) 0;
          cutoff = pre_bl - noise;
          b_start = start_loop wTac (pre_N s) cutoff b_peak;
          cutoff = post_bl - noise;
          mx = msd;
          Last = n - post_N s;
          b_end = end_loop wTac Last cutoff noise (b_peak + 2) mx;
          b_end = min (b_end - 1) (Last - 1)
      in (b_start, b_end))"

subsection \<open>M6_ModelInit\<close>

text \<open>\<^verbatim>\<open>(int)x\<close> for a double \<open>x\<close>: truncation toward zero.\<close>

definition trunc_int :: "real \<Rightarrow> int" where
  "trunc_int x = (if 0 \<le> x then \<lfloor>x\<rfloor> else \<lceil>x\<rceil>)"

text \<open>The calibration loops read the global curve through pointers into it. Here a
  pointer into \<^verbatim>\<open>GlobalTac\<close> is its offset from \<^verbatim>\<open>GlobalTac\<close>, the memory seen from
  \<^verbatim>\<open>GlobalTac\<close> is \<open>G\<close>, so that \<^verbatim>\<open>wTac[t]\<close> is \<open>G (wTac + t)\<close>, and every loop
  appends the index of each cell it reads to the log \<open>rd\<close>.\<close>

text \<open>\<^verbatim>\<open>for (t=1; t<wNumTms; t++) MinSi = min(MinSi, wTac[t]);\<close>\<close>

function MinSi_loop ::
  "(int \<Rightarrow> real) \<Rightarrow> int \<Rightarrow> int \<Rightarrow> int \<Rightarrow> real \<Rightarrow> int list \<Rightarrow> real \<times> int list" where
  "MinSi_loop G wTac n t MinSi rd =
     (if t < n then
        MinSi_loop G wTac n (t + 1) (min MinSi (G (wTac + t))) (rd @ [wTac + t])
      else (MinSi, rd))"
  by pat_completeness auto
termination
  by (relation "measure (\<lambda>(G, wTac, n, t, MinSi, rd). nat (n - t))") auto

declare MinSi_loop.simps [simp del]

text \<open>\<^verbatim>\<open>for (pre_N=1; pre_N<wNumTms; pre_N++) if (wTac[pre_N]-MinSi<Thr) break;\<close>\<close>

function pre_N_loop ::
  "(int \<Rightarrow> real) \<Rightarrow> int \<Rightarrow> int \<Rightarrow> real \<Rightarrow> real \<Rightarrow> int \<Rightarrow> int list \<Rightarrow> int \<times> int list" where
  "pre_N_loop G wTac n MinSi Thr p rd =
     (if p < n then
        (if G (wTac + p) - MinSi < Thr then (p, rd @ [wTac + p])
         else pre_N_loop G wTac n MinSi Thr (p + 1) (rd @ [wTac + p]))
      else (p, rd))"
  by pat_completeness auto
termination
  by (relation "measure (\<lambda>(G, wTac, n, MinSi, Thr, p, rd). nat (n - p))") auto

declare pre_N_loop.simps [simp del]

text \<open>\<^verbatim>\<open>for (post_N=1; post_N<wNumTms; post_N++) if (wTacEnd[-post_N]-MinSi<Thr) break;\<close>\<close>

function post_N_loop ::
  "(int \<Rightarrow> real) \<Rightarrow> int \<Rightarrow> int \<Rightarrow> real \<Rightarrow> real \<Rightarrow> int \<Rightarrow> int list \<Rightarrow> int \<times> int list" where
  "post_N_loop G wTacEnd n MinSi Thr q rd =
     (if q < n then
        (if G (wTacEnd + (- q)) - MinSi < Thr then (q, rd @ [wTacEnd + (- q)])
         else post_N_loop G wTacEnd n MinSi Thr (q + 1) (rd @ [wTacEnd + (- q)]))
      else (q, rd))"
  by pat_completeness auto
termination
  by (relation "measure (\<lambda>(G, wTacEnd, n, MinSi, Thr, q, rd). nat (n - q))") auto

declare post_N_loop.simps [simp del]

text \<open>\<^verbatim>\<open>for (t=0; t<NumTms; t++) Tac[t] = fabs(RoiTac[t]);\<close> on the local buffer
  \<open>Tac\<close>.\<close>

function Tac_loop :: "(int \<Rightarrow> real) \<Rightarrow> int \<Rightarrow> int \<Rightarrow> (int \<Rightarrow> real) \<Rightarrow> int \<Rightarrow> real" where
  "Tac_loop RoiTac n t Tac =
     (if t < n then Tac_loop RoiTac n (t + 1) (Tac(t := \<bar>RoiTac t\<bar>)) else Tac)"
  by pat_completeness auto
termination
  by (relation "measure (\<lambda>(RoiTac, n, t, Tac). nat (n - t))") auto

declare Tac_loop.simps [simp del]

text \<open>What a call of \<^verbatim>\<open>M6_ModelInit\<close> leaves: the value returned, the framework's
  globals, the module's statics, and the indices of \<^verbatim>\<open>GlobalTac\<close> that were read, in
  order.\<close>

record init_out =
  res :: bool
  fw :: framework
  st :: statics
  reads :: "int list"

text \<open>\<^verbatim>\<open>M6_ModelInit\<close>. The locals \<^verbatim>\<open>Integral\<close> and \<^verbatim>\<open>Tac\<close> are not initialised
  by the code: what they hold on entry is given by \<open>Integral\<close> and \<open>Tac0\<close>. The call
  \<^verbatim>\<open>M6_ModelFunc(Tac, p)\<close> is commented out in the source and so is absent here.\<close>

definition M6_ModelInit ::
  "collab \<Rightarrow> real \<Rightarrow> (int \<Rightarrow> real) \<Rightarrow> framework \<Rightarrow> statics \<Rightarrow> init_out" where
  "M6_ModelInit c Integral Tac0 g s =
     (if NumRoiTac g > 1 then \<lparr>res = False, fw = g, st = s, reads = []\<rparr>
      else
        let s = s\<lparr>Tarr := PR_MakeRelativeArr c (AbsTarr g) (NumTms g)\<rparr> in
        if Tarr s = None then \<lparr>res = False, fw = g, st = s, reads = []\<rparr>
        else
          let s = s\<lparr>AirThresh := M6_FreeParm g 0 * demp_NoiseLevel g\<rparr>;
              s = s\<lparr>SkipTimes := trunc_int (M6_FreeParm g 1)\<rparr>;
              s = s\<lparr>wNumTms := NumTms g - SkipTimes s\<rparr>;
              G = GlobalTac g;
              wTac = PASS_START;
              SA = G (wTac + 0);
              SB = G (wTac + (wNumTms s - 1));
              rd = [wTac + 0, wTac + (wNumTms s - 1)];
              (MinSi, rd) = MinSi_loop G wTac (wNumTms s) 1 SA rd;
              Thr = (SA - MinSi) * PRE_N_THR;
              (p, rd) = pre_N_loop G wTac (wNumTms s) MinSi Thr 1 rd;
              s = s\<lparr>pre_N := p\<rparr>;
              wTacEnd = wTac + wNumTms s - 1;
              Thr = (SB - MinSi) * POST_N_THR;
              (q, rd) = post_N_loop G wTacEnd (wNumTms s) MinSi Thr 1 rd;
              s = s\<lparr>post_N := q\<rparr>
          in
          if NumRoiTac g = 1 then
            let RoiTac = RoiTacArr g 0;
                Tac = Tac_loop RoiTac (NumTms g) 0 Tac0
            in
            if IsAir_ByMin c Tac (of_int (NumTms g))
            then \<lparr>res = False, fw = g, st = s, reads = rd\<rparr>
            else
              let s = s\<lparr>WhiteMatterNorm := ONE\<rparr>;
                  s = s\<lparr>WhiteMatterNorm := ONE / Integral\<rparr>
              in \<lparr>res = True, fw = g, st = s, reads = rd\<rparr>
          else \<lparr>res = True, fw = g, st = s\<lparr>WhiteMatterNorm := ONE\<rparr>, reads = rd\<rparr>)"

subsection \<open>M6_ModelFunc\<close>

text \<open>\<^verbatim>\<open>for (t=b_start; t<=b_end; t++) CorrTac[t] = wTac[t] - sf*(wTarr[t]-b_stime);\<close>
  on the local buffer \<open>CorrTac\<close>.\<close>

function CorrTac_loop ::
  "(int \<Rightarrow> real) \<Rightarrow> (int \<Rightarrow> real) \<Rightarrow> real \<Rightarrow> real \<Rightarrow> int \<Rightarrow> int \<Rightarrow> (int \<Rightarrow> real)
     \<Rightarrow> int \<Rightarrow> real" where
  "CorrTac_loop wTac wTarr sf b_stime b_end t CorrTac =
     (if t \<le> b_end then
        CorrTac_loop wTac wTarr sf b_stime b_end (t + 1)
          (CorrTac(t := wTac t - sf * (wTarr t - b_stime)))
      else CorrTac)"
  by pat_completeness auto
termination
  by (relation "measure (\<lambda>(wTac, wTarr, sf, b_stime, b_end, t, CorrTac). nat (b_end + 1 - t))")
    auto

declare CorrTac_loop.simps [simp del]

text \<open>\<^verbatim>\<open>for (t=0; t<wNumTms; t++) { double tmp = CorrTac[t]/S0;
       if (tmp>0.01 && tmp<ONE) Cx[t] = -log(tmp); else Cx[t] = ZERO; }\<close>
  on the local buffer \<open>Cx\<close>. For \<open>S0 = 0\<close> the C quotient is infinite or NaN and fails
  the test; the quotient \<open>x / 0 = 0\<close> of the reals fails it too.\<close>

function Cx_loop :: "(int \<Rightarrow> real) \<Rightarrow> real \<Rightarrow> int \<Rightarrow> int \<Rightarrow> (int \<Rightarrow> real) \<Rightarrow> int \<Rightarrow> real" where
  "Cx_loop CorrTac S0 n t Cx =
     (if t < n then
        (let tmp = CorrTac t / S0 in
         Cx_loop CorrTac S0 n (t + 1)
           (Cx(t := (if tmp > 1 / 100 \<and> tmp < ONE then - ln tmp else ZERO))))
      else Cx)"
  by pat_completeness auto
termination
  by (relation "measure (\<lambda>(CorrTac, S0, n, t, Cx). nat (n - t))") auto

declare Cx_loop.simps [simp del]

text \<open>The block "Perform baseline correction" of \<^verbatim>\<open>M6_ModelFunc\<close>:
  \<^verbatim>\<open>double b_stime = wTarr[b_start];
  double sf = (post_bl-pre_bl)/(wTarr[b_end]-b_stime);\<close>
  and the loop over \<open>CorrTac\<close>; it returns the buffer \<open>CorrTac\<close>, which holds
  \<open>CorrTac0\<close> on entry.\<close>

definition BaselineCorrection ::
  "(int \<Rightarrow> real) \<Rightarrow> (int \<Rightarrow> real) \<Rightarrow> real \<Rightarrow> real \<Rightarrow> int \<Rightarrow> int \<Rightarrow> (int \<Rightarrow> real)
     \<Rightarrow> int \<Rightarrow> real" where
  "BaselineCorrection wTac wTarr pre_bl post_bl b_start b_end CorrTac0 =
     (let b_stime = wTarr b_start;
          sf = (post_bl - pre_bl) / (wTarr b_end - b_stime)
      in CorrTac_loop wTac wTarr sf b_stime b_end b_start CorrTac0)"

text \<open>What a call of \<^verbatim>\<open>M6_ModelFunc\<close> does besides returning: a call of
  \<^verbatim>\<open>CalculateIntegral\<close> (with the start index and the count) and a \<^verbatim>\<open>Write\<close> to
  \<^verbatim>\<open>OutParm\<close>.\<close>

datatype event = Integrate int int | WriteOut real

text \<open>\<^verbatim>\<open>M6_ModelFunc\<close> returns \<open>Some (res, events)\<close>, or \<open>None\<close> when it dereferences
  a \<^verbatim>\<open>NULL\<close> \<open>Tarr\<close>. The local buffers \<^verbatim>\<open>CorrTac\<close> and \<^verbatim>\<open>Cx\<close> are not initialised
  by the code: what they hold on entry is given by \<open>CorrTac0\<close> and \<open>Cx0\<close>.\<close>

definition M6_ModelFunc ::
  "collab \<Rightarrow> (int \<Rightarrow> real) \<Rightarrow> (int \<Rightarrow> real) \<Rightarrow> framework \<Rightarrow> statics \<Rightarrow> (int \<Rightarrow> real)
     \<Rightarrow> (bool \<times> event list) option" where
  "M6_ModelFunc c CorrTac0 Cx0 g s Tac =
     (if IsAir_ByMin c Tac (AirThresh s) then Some (False, [])
      else
        let wTac = (\<lambda>t. Tac (SkipTimes s + t));
            n = NumTms g - SkipTimes s;
            (pre_bl, noise) = PR_ArrStats c wTac (pre_N s);
            post_bl = fst (PR_ArrStats c (\<lambda>t. wTac ((n - post_N s) + t)) (post_N s));
            (b_start, b_end) = FindBolusPosition s wTac n noise pre_bl post_bl
        in
        if b_start \<ge> b_end then Some (False, [])
        else
          (case Tarr s of
             None \<Rightarrow> None
           | Some T \<Rightarrow>
               let wTarr = (\<lambda>t. T (SkipTimes s + t));
                   CorrTac = BaselineCorrection wTac wTarr pre_bl post_bl b_start b_end CorrTac0;
                   S0 = pre_bl;
                   Cx = Cx_loop CorrTac S0 n 0 Cx0;
                   Intg = CalculateIntegral c (\<lambda>t. Cx (b_start + t)) (\<lambda>t. wTarr (b_start + t))
                            (b_end - b_start + 1)
               in Some (True, [Integrate b_start (b_end - b_start + 1),
                               WriteOut (Intg * WhiteMatterNorm s)])))"

section \<open>Notions used to state the properties\<close>

text \<open>The running maximum of the end loop when it tests index \<open>t\<close>: the largest of \<open>m\<close>
  (the value at the peak) and the cells \<open>lo..t\<close>.\<close>

definition run_max :: "(int \<Rightarrow> real) \<Rightarrow> real \<Rightarrow> int \<Rightarrow> int \<Rightarrow> real" where
  "run_max wTac m lo t = Max (insert m (wTac ` {lo..t}))"

section \<open>Concrete inputs\<close>

text \<open>A working curve of 12 frames with a single dip: plateau at 100, trough 40 at
  index 5, return to a plateau at 95.\<close>

definition curve1 :: "real list" where
  "curve1 = [100, 100, 100, 90, 60, 40, 50, 80, 96, 95, 95, 95]"

definition statics1 :: statics where
  "statics1 = \<lparr>AirThresh = 0, WhiteMatterNorm = 1, SkipTimes = 0, wNumTms = 12,
                pre_N = 2, post_N = 3, Tarr = None\<rparr>"

text \<open>A working curve whose smallest sample is the first one.\<close>

definition curve2 :: "real list" where
  "curve2 = [40, 100, 100, 100, 100, 100, 100, 100]"

definition statics2 :: statics where
  "statics2 = \<lparr>AirThresh = 0, WhiteMatterNorm = 1, SkipTimes = 0, wNumTms = 8,
                pre_N = 2, post_N = 2, Tarr = None\<rparr>"

text \<open>A perfectly flat working curve.\<close>

definition curve3 :: "real list" where
  "curve3 = [5, 5, 5, 5, 5, 5]"

text \<open>A sample environment for the concrete evaluations: the relative time axis is
  the absolute one shifted to start at \<open>0\<close>, no curve is classified as air, the
  statistics of a window are its first sample with noise \<open>0\<close>, and every integral
  is \<open>0\<close>. The general theorems hold for every environment.\<close>

definition collab0 :: collab where
  "collab0 = \<lparr>PR_MakeRelativeArr = (\<lambda>a n. Some (\<lambda>t. a t - a 0)),
              IsAir_ByMin = (\<lambda>a thr. False),
              PR_ArrStats = (\<lambda>a n. (a 0, 0)),
              CalculateIntegral = (\<lambda>y x n. 0)\<rparr>"

text \<open>The statics before initialisation.\<close>

definition statics0 :: statics where
  "statics0 = \<lparr>AirThresh = 0, WhiteMatterNorm = 0, SkipTimes = 0, wNumTms = 0,
                pre_N = 0, post_N = 0, Tarr = None\<rparr>"

text \<open>A series of six frames with the default free parameters (no frame skipped).\<close>

definition global10 :: "real list" where
  "global10 = [100, 100, 100, 50, 95, 95]"

definition framework10 :: framework where
  "framework10 = \<lparr>NumTms = 6, AbsTarr = arr [0, 1, 2, 3, 4, 5], GlobalTac = arr global10,
     NumRoiTac = 0, RoiTacArr = (\<lambda>k. arr []), demp_NoiseLevel = 1,
     M6_FreeParm = M6_FreeParmDefault\<rparr>"

text \<open>A series of eight frames whose global curve dips at frame 3, with three
  frames skipped: the calibration window is frames 2 to 6, inside the curve.\<close>

definition global7 :: "real list" where
  "global7 = [10, 10, 10, 1, 10, 10, 10, 10]"

definition framework7 :: framework where
  "framework7 = \<lparr>NumTms = 8, AbsTarr = arr [0, 1, 2, 3, 4, 5, 6, 7], GlobalTac = arr global7,
     NumRoiTac = 0, RoiTacArr = (\<lambda>k. arr []), demp_NoiseLevel = 1,
     M6_FreeParm = arr [20, 3]\<rparr>"

text \<open>A series of seven frames with a flat global curve and two frames skipped: the
  calibration window is frames 2 to 6, inside the curve.\<close>

definition global8 :: "real list" where
  "global8 = [7, 7, 7, 7, 7, 7, 7]"

definition framework8 :: framework where
  "framework8 = \<lparr>NumTms = 7, AbsTarr = arr [0, 1, 2, 3, 4, 5, 6], GlobalTac = arr global8,
     NumRoiTac = 0, RoiTacArr = (\<lambda>k. arr []), demp_NoiseLevel = 1,
     M6_FreeParm = arr [20, 2]\<rparr>"

text \<open>The series \<open>framework7\<close> with one reference (white matter) ROI.\<close>

definition framework5 :: framework where
  "framework5 = \<lparr>NumTms = 8, AbsTarr = arr [0, 1, 2, 3, 4, 5, 6, 7], GlobalTac = arr global7,
     NumRoiTac = 1, RoiTacArr = (\<lambda>k. arr [100, 100, 100, 60, 40, 80, 95, 95]),
     demp_NoiseLevel = 1, M6_FreeParm = arr [20, 3]\<rparr>"

text \<open>The calibration as the specification words it (section 4.1), on a curve given
  as a list: \<open>SA = curve[0]\<close>, \<open>SB = curve[last]\<close>, \<open>MinSi = min(curve)\<close>; scan
  forward from index 1 while \<open>curve[i] - MinSi >= threshold_pre\<close>, the first index
  where this fails is \<open>pre_N\<close>; symmetrically backward from the end for \<open>post_N\<close>;
  a scan that never fails consumes the whole length.\<close>

definition spec_Calibrate :: "real list \<Rightarrow> int \<times> int" where
  "spec_Calibrate curve =
     (let SA = hd curve; SB = last curve; MinSi = Min (set curve);
          threshold_pre = (SA - MinSi) * (95 / 100);
          threshold_post = (SB - MinSi) * (95 / 100);
          L = length curve;
          pre = (case find (\<lambda>i. \<not> curve ! i - MinSi \<ge> threshold_pre) [1..<L] of
                   Some i \<Rightarrow> int i | None \<Rightarrow> int L);
          post = (case find (\<lambda>j. \<not> curve ! (L - 1 - j) - MinSi \<ge> threshold_post) [1..<L] of
                   Some j \<Rightarrow> int j | None \<Rightarrow> int L)
      in (pre, post))"

text \<open>A corrected segment of four samples, to be converted with \<open>S0 = 100\<close>: its
  ratios are \<open>1/2\<close>, \<open>1\<close>, \<open>3/2\<close> and \<open>1/200\<close>.\<close>

definition corr4 :: "real list" where
  "corr4 = [50, 100, 150, 1 / 2]"

text \<open>A voxel curve of eight frames whose trough lies at the end of the working
  curve.\<close>

definition voxel6 :: "real list" where
  "voxel6 = [100, 100, 100, 100, 100, 60, 40, 90]"

text \<open>The statics after the initialisation of the series \<open>framework7\<close>.\<close>

definition statics7 :: statics where
  "statics7 = st (M6_ModelInit collab0 0 (\<lambda>t. 0) framework7 statics0)"

text \<open>A series of fourteen frames with two frames skipped and no reference ROI; its
  calibration window, frames 2 to 13, is the curve \<open>curve1\<close>. The statics after its
  initialisation.\<close>

definition global12 :: "real list" where
  "global12 = [100, 100, 100, 100, 100, 90, 60, 40, 50, 80, 96, 95, 95, 95]"

definition framework12 :: framework where
  "framework12 = \<lparr>NumTms = 14, AbsTarr = arr [0, 1, 2, 3, 4, 5, 6, 7, 8, 9, 10, 11, 12, 13],
     GlobalTac = arr global12, NumRoiTac = 0, RoiTacArr = (\<lambda>k. arr []), demp_NoiseLevel = 1,
     M6_FreeParm = arr [20, 2]\<rparr>"

definition statics12 :: statics where
  "statics12 = st (M6_ModelInit collab0 0 (\<lambda>t. 0) framework12 statics0)"

text \<open>A working curve whose smallest sample is frame 1, inside a pre-baseline window
  of three frames.\<close>

definition curve9 :: "real list" where
  "curve9 = [100, 40, 100, 100, 100, 100, 100, 100, 100]"

definition statics9 :: statics where
  "statics9 = \<lparr>AirThresh = 0, WhiteMatterNorm = 1, SkipTimes = 0, wNumTms = 9,
                pre_N = 3, post_N = 2, Tarr = None\<rparr>"

section \<open>The loops of FindBolusPosition\<close>

lemma peak_loop_inv:
  assumes "0 \<le> b" "b < t" "msd = wTac b"
    and "\<forall>i. 0 \<le> i \<and> i < t \<longrightarrow> msd \<le> wTac i"
    and "\<forall>i. 0 \<le> i \<and> i < b \<longrightarrow> msd < wTac i"
    and "peak_loop wTac n t msd b = (m, p)"
  shows "0 \<le> p \<and> p < max t n \<and> m = wTac p
     \<and> (\<forall>i. 0 \<le> i \<and> i < max t n \<longrightarrow> m \<le> wTac i)
     \<and> (\<forall>i. 0 \<le> i \<and> i < p \<longrightarrow> m < wTac i)"
  using assms
proof (induction wTac n t msd b rule: peak_loop.induct)
  case (1 wTac n t msd b_peak)
  show ?case
  proof (cases "t < n")
    case False
    then have r: "m = msd" "p = b_peak"
      using "1.prems"(6) by (simp_all add: peak_loop.simps [of wTac n t])
    have mx: "max t n = t" using False by simp
    show ?thesis unfolding mx r
      using "1.prems"(1-5) by blast
  next
    case True
    have mx: "max (t + 1) n = max t n" using True by simp
    show ?thesis
    proof (cases "wTac t < msd")
      case lt: True
      have call: "peak_loop wTac n (t + 1) (wTac t) t = (m, p)"
        using "1.prems"(6) True lt by (simp add: peak_loop.simps [of wTac n t])
      have a: "\<forall>i. 0 \<le> i \<and> i < t + 1 \<longrightarrow> wTac t \<le> wTac i"
      proof (intro allI impI)
        fix i assume h: "0 \<le> i \<and> i < t + 1"
        then have "i < t \<or> i = t" by arith
        then show "wTac t \<le> wTac i"
        proof
          assume "i < t"
          then have "msd \<le> wTac i" using "1.prems"(4) h by blast
          then show ?thesis using lt by simp
        next
          assume "i = t"
          then show ?thesis by simp
        qed
      qed
      have b: "\<forall>i. 0 \<le> i \<and> i < t \<longrightarrow> wTac t < wTac i"
      proof (intro allI impI)
        fix i assume h: "0 \<le> i \<and> i < t"
        then have "msd \<le> wTac i" using "1.prems"(4) by blast
        then show "wTac t < wTac i" using lt by simp
      qed
      have t0: "0 \<le> t" using "1.prems"(1,2) by arith
      have tt: "t < t + 1" by simp
      from "1.IH"(1) [OF True lt t0 tt refl a b call]
      show ?thesis unfolding mx .
    next
      case ge: False
      have call: "peak_loop wTac n (t + 1) msd b_peak = (m, p)"
        using "1.prems"(6) True ge by (simp add: peak_loop.simps [of wTac n t])
      have a: "\<forall>i. 0 \<le> i \<and> i < t + 1 \<longrightarrow> msd \<le> wTac i"
      proof (intro allI impI)
        fix i assume h: "0 \<le> i \<and> i < t + 1"
        then have "i < t \<or> i = t" by arith
        then show "msd \<le> wTac i"
        proof
          assume "i < t"
          then show ?thesis using "1.prems"(4) h by blast
        next
          assume "i = t"
          then show ?thesis using ge by simp
        qed
      qed
      have bt: "b_peak < t + 1" using "1.prems"(2) by arith
      from "1.IH"(2) [OF True ge "1.prems"(1) bt "1.prems"(3) a "1.prems"(5) call]
      show ?thesis unfolding mx .
    qed
  qed
qed

lemma start_loop_char:
  "start_loop wTac preN cutoff b = r \<Longrightarrow>
     r \<le> b \<and> (r \<le> preN \<or> wTac (r - 1) > cutoff)
   \<and> (\<forall>t. r < t \<and> t \<le> b \<longrightarrow> preN < t \<and> wTac (t - 1) \<le> cutoff)
   \<and> (preN \<le> b \<longrightarrow> preN \<le> r) \<and> (b \<le> preN \<longrightarrow> r = b)"
proof (induction wTac preN cutoff b rule: start_loop.induct)
  case (1 wTac preN cutoff b_start)
  show ?case
  proof (cases "b_start > preN")
    case False
    then have "r = b_start"
      using "1.prems" by (simp add: start_loop.simps [of wTac preN cutoff b_start])
    with False show ?thesis by simp
  next
    case True
    show ?thesis
    proof (cases "wTac (b_start - 1) > cutoff")
      case brk: True
      then have "r = b_start"
        using True "1.prems" by (simp add: start_loop.simps [of wTac preN cutoff b_start])
      with brk True show ?thesis by simp
    next
      case go: False
      have call: "start_loop wTac preN cutoff (b_start - 1) = r"
        using "1.prems" True go by (simp add: start_loop.simps [of wTac preN cutoff b_start])
      note ih = "1.IH" [OF True go call]
      have a: "r \<le> b_start" using ih by arith
      have b: "r \<le> preN \<or> wTac (r - 1) > cutoff" using ih by blast
      have c: "\<forall>t. r < t \<and> t \<le> b_start \<longrightarrow> preN < t \<and> wTac (t - 1) \<le> cutoff"
      proof (intro allI impI)
        fix t assume h: "r < t \<and> t \<le> b_start"
        then have "t \<le> b_start - 1 \<or> t = b_start" by arith
        then show "preN < t \<and> wTac (t - 1) \<le> cutoff"
        proof
          assume "t \<le> b_start - 1"
          with ih h show ?thesis by blast
        next
          assume "t = b_start"
          with True go show ?thesis by simp
        qed
      qed
      have d: "preN \<le> r" using ih True by arith
      have e: "\<not> b_start \<le> preN" using True by arith
      from a b c d e show ?thesis by blast
    qed
  qed
qed

lemma run_max_step:
  assumes "lo \<le> t"
  shows "run_max wTac m lo t = max (run_max wTac m lo (t - 1)) (wTac t)"
proof -
  have "{lo..t} = insert t {lo..t - 1}" using assms by auto
  then have "insert m (wTac ` {lo..t}) = insert (wTac t) (insert m (wTac ` {lo..t - 1}))"
    by auto
  then show ?thesis
    by (simp add: run_max_def max.commute)
qed

lemma end_loop_char:
  assumes "lo \<le> b" "mx = run_max wTac m lo (b - 1)"
    and "end_loop wTac Last cutoff noise b mx = stop"
  shows "b \<le> stop
    \<and> (\<forall>t. b \<le> t \<and> t < stop \<longrightarrow>
          t < Last \<and> wTac t \<le> cutoff \<and> run_max wTac m lo t - noise \<le> wTac t)
    \<and> (stop < Last \<longrightarrow>
          wTac stop > cutoff \<or> wTac stop < run_max wTac m lo stop - noise)
    \<and> stop \<le> max b Last"
  using assms
proof (induction wTac Last cutoff noise b mx rule: end_loop.induct)
  case (1 wTac Last cutoff noise b_end mx)
  define mx' where "mx' = (if wTac b_end > mx then wTac b_end else mx)"
  have rm: "run_max wTac m lo b_end = mx'"
    using run_max_step [OF "1.prems"(1), of wTac m] "1.prems"(2)
    by (simp add: max_def mx'_def)
  show ?case
  proof (cases "b_end < Last")
    case False
    then have "stop = b_end"
      using "1.prems"(3) by (simp add: end_loop.simps [of wTac Last cutoff noise b_end])
    with False show ?thesis by simp
  next
    case True
    show ?thesis
    proof (cases "wTac b_end > cutoff \<or> wTac b_end < mx' - noise")
      case brk: True
      then have "stop = b_end"
        using "1.prems"(3) True
        by (simp add: end_loop.simps [of wTac Last cutoff noise b_end] mx'_def Let_def)
      with brk True rm show ?thesis by simp
    next
      case go: False
      have call: "end_loop wTac Last cutoff noise (b_end + 1) mx' = stop"
        using "1.prems"(3) True go
        by (simp add: end_loop.simps [of wTac Last cutoff noise b_end] mx'_def Let_def)
      have lo1: "lo \<le> b_end + 1" using "1.prems"(1) by arith
      have mx1: "mx' = run_max wTac m lo (b_end + 1 - 1)" using rm by simp
      note ih = "1.IH" [OF True mx'_def go lo1 mx1 call]
      have a: "b_end \<le> stop" using ih by arith
      have b: "\<forall>t. b_end \<le> t \<and> t < stop \<longrightarrow>
          t < Last \<and> wTac t \<le> cutoff \<and> run_max wTac m lo t - noise \<le> wTac t"
      proof (intro allI impI)
        fix t assume h: "b_end \<le> t \<and> t < stop"
        then have "t = b_end \<or> b_end + 1 \<le> t" by arith
        then show "t < Last \<and> wTac t \<le> cutoff \<and> run_max wTac m lo t - noise \<le> wTac t"
        proof
          assume e: "t = b_end"
          from go have "wTac b_end \<le> cutoff" "mx' - noise \<le> wTac b_end" by simp_all
          with True rm e show ?thesis by simp
        next
          assume "b_end + 1 \<le> t"
          with ih h show ?thesis by blast
        qed
      qed
      have c: "stop < Last \<longrightarrow>
          wTac stop > cutoff \<or> wTac stop < run_max wTac m lo stop - noise"
        using ih by blast
      have "stop \<le> max (b_end + 1) Last" using ih by blast
      then have d: "stop \<le> max b_end Last" using True by simp
      from a b c d show ?thesis by blast
    qed
  qed
qed

section \<open>The bolus window\<close>

text \<open>The search steps of \<^verbatim>\<open>FindBolusPosition\<close> as the code performs them, for
  every working curve of at least one frame. There are an index \<open>peak\<close> and an index
  \<open>stop\<close> such that:
  \<^item> \<open>peak\<close> is the first index of the global minimum of the curve;
  \<^item> the start index is reached by walking backward from \<open>peak\<close>: every index \<open>t\<close>
    the walk steps over is above \<open>pre_N\<close> and has \<open>wTac[t-1] \<le> pre_bl - noise\<close>, and
    the walk stops at the first \<open>t\<close> that is at the bound \<open>pre_N\<close> (or below it) or
    has \<open>wTac[t-1] > pre_bl - noise\<close>; when the peak is not below \<open>pre_N\<close>, neither is
    the start;
  \<^item> the forward scan starts at \<open>peak + 2\<close>; every index it passes is below
    \<open>Last = n - post_N\<close>, is not above \<open>post_bl - noise\<close> and is not below the running
    maximum minus \<open>noise\<close>; \<open>stop\<close> is the first index below \<open>Last\<close> that is above
    \<open>post_bl - noise\<close> or below the running maximum minus \<open>noise\<close>, and the scan goes
    no further than \<open>Last\<close>;
  \<^item> the end index is \<open>min (stop - 1) (Last - 1)\<close>.\<close>

theorem FindBolusPosition_steps:
  assumes "1 \<le> n"
    and "FindBolusPosition s wTac n noise pre_bl post_bl = (b_start, b_end)"
  shows "\<exists>peak stop.
      (0 \<le> peak \<and> peak < n
        \<and> (\<forall>t. 0 \<le> t \<and> t < n \<longrightarrow> wTac peak \<le> wTac t)
        \<and> (\<forall>t. 0 \<le> t \<and> t < peak \<longrightarrow> wTac peak < wTac t))
    \<and> (b_start \<le> peak
        \<and> (b_start \<le> pre_N s \<or> wTac (b_start - 1) > pre_bl - noise)
        \<and> (\<forall>t. b_start < t \<and> t \<le> peak \<longrightarrow> pre_N s < t \<and> wTac (t - 1) \<le> pre_bl - noise)
        \<and> (pre_N s \<le> peak \<longrightarrow> pre_N s \<le> b_start))
    \<and> (peak + 2 \<le> stop \<and> stop \<le> max (peak + 2) (n - post_N s)
        \<and> (\<forall>t. peak + 2 \<le> t \<and> t < stop \<longrightarrow>
              t < n - post_N s \<and> wTac t \<le> post_bl - noise
              \<and> run_max wTac (wTac peak) (peak + 2) t - noise \<le> wTac t)
        \<and> (stop < n - post_N s \<longrightarrow>
              wTac stop > post_bl - noise
              \<or> wTac stop < run_max wTac (wTac peak) (peak + 2) stop - noise)
        \<and> b_end = min (stop - 1) (n - post_N s - 1))"
proof -
  obtain msd peak where pk: "peak_loop wTac n 1 (wTac 0) 0 = (msd, peak)"
    by (cases "peak_loop wTac n 1 (wTac 0) 0") blast
  define stop where "stop = end_loop wTac (n - post_N s) (post_bl - noise) noise (peak + 2) msd"
  have bs: "b_start = start_loop wTac (pre_N s) (pre_bl - noise) peak"
    and be: "b_end = min (stop - 1) (n - post_N s - 1)"
    using assms(2) pk by (simp_all add: FindBolusPosition_def Let_def stop_def)
  have mx: "max 1 n = n" using assms(1) by simp
  have "\<forall>i. 0 \<le> i \<and> i < (1::int) \<longrightarrow> wTac 0 \<le> wTac i"
  proof (intro allI impI)
    fix i :: int assume "0 \<le> i \<and> i < 1"
    then have "i = 0" by arith
    then show "wTac 0 \<le> wTac i" by simp
  qed
  moreover have "\<forall>i. 0 \<le> i \<and> i < (0::int) \<longrightarrow> wTac 0 < wTac i" by simp
  moreover have "(0::int) \<le> 0" "(0::int) < 1" by simp_all
  ultimately have "0 \<le> peak \<and> peak < max 1 n \<and> msd = wTac peak
     \<and> (\<forall>i. 0 \<le> i \<and> i < max 1 n \<longrightarrow> msd \<le> wTac i)
     \<and> (\<forall>i. 0 \<le> i \<and> i < peak \<longrightarrow> msd < wTac i)"
    using pk by (intro peak_loop_inv [of 0 1 "wTac 0" wTac n msd peak]) simp_all
  then have P: "0 \<le> peak \<and> peak < n \<and> msd = wTac peak
     \<and> (\<forall>i. 0 \<le> i \<and> i < n \<longrightarrow> msd \<le> wTac i)
     \<and> (\<forall>i. 0 \<le> i \<and> i < peak \<longrightarrow> msd < wTac i)"
    unfolding mx .
  then have msd: "msd = wTac peak" by blast
  have S: "b_start \<le> peak
        \<and> (b_start \<le> pre_N s \<or> wTac (b_start - 1) > pre_bl - noise)
        \<and> (\<forall>t. b_start < t \<and> t \<le> peak \<longrightarrow> pre_N s < t \<and> wTac (t - 1) \<le> pre_bl - noise)
        \<and> (pre_N s \<le> peak \<longrightarrow> pre_N s \<le> b_start)"
    using start_loop_char [OF bs [symmetric]] by blast
  have "msd = run_max wTac msd (peak + 2) (peak + 2 - 1)"
    by (simp add: run_max_def)
  from end_loop_char [OF order_refl this stop_def [symmetric]]
  have E: "peak + 2 \<le> stop \<and> stop \<le> max (peak + 2) (n - post_N s)
        \<and> (\<forall>t. peak + 2 \<le> t \<and> t < stop \<longrightarrow>
              t < n - post_N s \<and> wTac t \<le> post_bl - noise
              \<and> run_max wTac (wTac peak) (peak + 2) t - noise \<le> wTac t)
        \<and> (stop < n - post_N s \<longrightarrow>
              wTac stop > post_bl - noise
              \<or> wTac stop < run_max wTac (wTac peak) (peak + 2) stop - noise)"
    unfolding msd by blast
  from P have P': "0 \<le> peak \<and> peak < n
        \<and> (\<forall>t. 0 \<le> t \<and> t < n \<longrightarrow> wTac peak \<le> wTac t)
        \<and> (\<forall>t. 0 \<le> t \<and> t < peak \<longrightarrow> wTac peak < wTac t)"
    unfolding msd by blast
  show ?thesis
    apply (rule exI [of _ peak])
    apply (rule exI [of _ stop])
    using P' S E be by blast
qed

theorem FindBolusPosition_steps_witness:
  "(1::int) \<le> 12 \<and> FindBolusPosition statics1 (arr curve1) 12 1 100 95 = (3, 7)
   \<and> (\<exists>peak stop. 0 \<le> peak \<and> peak < 12 \<and> 3 \<le> peak \<and> peak + 2 \<le> stop
        \<and> 7 = min (stop - 1) (12 - post_N statics1 - 1))"
proof -
  have h: "FindBolusPosition statics1 (arr curve1) 12 1 100 95 = (3, 7)"
    by code_simp
  have n: "(1::int) \<le> 12" by simp
  from FindBolusPosition_steps [OF n h] show ?thesis using h by auto
qed

text \<open>C1. The peak and the forward scan are as the steps above say, for every
  curve. The start is not: the backward walk is bounded below by \<open>pre_N\<close> only when it
  is entered at or above \<open>pre_N\<close>. On \<open>curve9\<close> with \<open>pre_N = 3\<close> and \<open>post_N = 2\<close>
  (pre-baseline 80, noise 28, post-baseline 100) the peak is frame 1, the loop
  \<^verbatim>\<open>for (b_start=b_peak; b_start>pre_N; b_start--)\<close> does not run, and the window is
  \<open>(1, 2)\<close>: its start is below \<open>pre_N\<close>, and it is accepted.\<close>

theorem FindBolusPosition_walk_below_bound:
  "FindBolusPosition statics9 (arr curve9) 9 28 80 100 = (1, 2)
   \<and> fst (FindBolusPosition statics9 (arr curve9) 9 28 80 100) < pre_N statics9
   \<and> fst (FindBolusPosition statics9 (arr curve9) 9 28 80 100)
       < snd (FindBolusPosition statics9 (arr curve9) 9 28 80 100)"
  by code_simp

text \<open>C2. The documented bound \<open>pre_N \<le> start\<close> fails when the smallest sample
  lies inside the pre-baseline window: the start loop is entered with the peak below
  \<open>pre_N\<close> and does not run. On \<open>curve2\<close> with \<open>pre_N = post_N = 2\<close> (mean 70 and
  standard deviation 30 of the pre-window, post-baseline 100) the window is \<open>(0, 1)\<close>:
  it starts below \<open>pre_N\<close> and is accepted, since start is below end.\<close>

theorem FindBolusPosition_start_below_pre_N:
  "FindBolusPosition statics2 (arr curve2) 8 30 70 100 = (0, 1)
   \<and> \<not> (pre_N statics2 \<le> fst (FindBolusPosition statics2 (arr curve2) 8 30 70 100))
   \<and> fst (FindBolusPosition statics2 (arr curve2) 8 30 70 100)
       < snd (FindBolusPosition statics2 (arr curve2) 8 30 70 100)"
  by code_simp

text \<open>The running maximum and the loops on a flat curve.\<close>

lemma run_max_flat:
  assumes "\<forall>t. lo \<le> t \<and> t \<le> u \<longrightarrow> wTac t = v"
  shows "run_max wTac v lo u = v"
proof -
  have e: "insert v (wTac ` {lo..u}) = {v}" using assms by auto
  show ?thesis unfolding run_max_def e by simp
qed

lemma end_loop_flat:
  assumes "\<forall>t. b \<le> t \<and> t < Last \<longrightarrow> wTac t = v"
  shows "end_loop wTac Last v 0 b v = max b Last"
proof -
  define stop where "stop = end_loop wTac Last v 0 b v"
  have "v = run_max wTac v b (b - 1)" by (simp add: run_max_def)
  from end_loop_char [OF order_refl this stop_def [symmetric]]
  have a: "b \<le> stop" and c: "stop \<le> max b Last"
    and d: "stop < Last \<longrightarrow> wTac stop > v \<or> wTac stop < run_max wTac v b stop - 0"
    by blast+
  have "\<not> stop < Last"
  proof
    assume lt: "stop < Last"
    then have w: "wTac stop = v" using assms a by blast
    have "\<forall>t. b \<le> t \<and> t \<le> stop \<longrightarrow> wTac t = v" using assms lt by auto
    then have "run_max wTac v b stop = v" by (rule run_max_flat)
    with d lt w show False by simp
  qed
  with a c show ?thesis unfolding stop_def by (simp add: max_def split: if_splits)
qed

lemma peak_loop_flat:
  assumes "\<forall>t. 0 \<le> t \<and> t < n \<longrightarrow> wTac t = v"
  shows "peak_loop wTac n 1 (wTac 0) 0 = (wTac 0, 0)"
proof -
  obtain m p where pk: "peak_loop wTac n 1 (wTac 0) 0 = (m, p)"
    by (cases "peak_loop wTac n 1 (wTac 0) 0") blast
  have "\<forall>i. 0 \<le> i \<and> i < (1::int) \<longrightarrow> wTac 0 \<le> wTac i"
  proof (intro allI impI)
    fix i :: int assume "0 \<le> i \<and> i < 1"
    then have "i = 0" by arith
    then show "wTac 0 \<le> wTac i" by simp
  qed
  moreover have "\<forall>i. 0 \<le> i \<and> i < (0::int) \<longrightarrow> wTac 0 < wTac i" by simp
  ultimately have P: "0 \<le> p \<and> p < max 1 n \<and> m = wTac p
     \<and> (\<forall>i. 0 \<le> i \<and> i < max 1 n \<longrightarrow> m \<le> wTac i)
     \<and> (\<forall>i. 0 \<le> i \<and> i < p \<longrightarrow> m < wTac i)"
    using pk by (intro peak_loop_inv [of 0 1 "wTac 0" wTac n m p]) simp_all
  have "p = 0"
  proof (rule ccontr)
    assume "p \<noteq> 0"
    then have p0: "0 < p" using P by arith
    then have "m < wTac 0" using P by blast
    moreover have "1 < n" using P p0 by (simp add: max_def split: if_splits)
    then have "wTac p = v" "wTac 0 = v" using assms P p0 by (auto simp: max_def)
    ultimately show False using P by simp
  qed
  with P pk show ?thesis by simp
qed

text \<open>C3, as the code has it. On a perfectly flat working curve (every sample \<open>v\<close>,
  noise \<open>0\<close>, post-baseline \<open>v\<close>) neither stop test of the forward scan fires, both
  being strict: the scan, entered at index \<open>2\<close> with running maximum \<open>v\<close>, leaves at
  its limit \<open>Last = n - post_N\<close> (or at once when \<open>Last \<le> 2\<close>), and the end index is
  \<open>n - post_N - 1\<close>. There is no rejection of flat curves: a flat voxel is rejected
  only when its start index is not below this end.\<close>

theorem FindBolusPosition_flat_end:
  assumes "\<forall>t. 0 \<le> t \<and> t < n \<longrightarrow> wTac t = v"
    and "0 \<le> post_N s" and "1 \<le> n"
  shows "end_loop wTac (n - post_N s) (v - 0) 0 2 v = max 2 (n - post_N s)
    \<and> snd (FindBolusPosition s wTac n 0 v v) = n - post_N s - 1"
proof -
  have w0: "wTac 0 = v" using assms(1,3) by simp
  have pk: "peak_loop wTac n 1 (wTac 0) 0 = (v, 0)"
    using peak_loop_flat [OF assms(1)] w0 by simp
  have "\<forall>t. 2 \<le> t \<and> t < n - post_N s \<longrightarrow> wTac t = v"
    using assms(1,2) by auto
  then have en: "end_loop wTac (n - post_N s) v 0 2 v = max 2 (n - post_N s)"
    by (rule end_loop_flat)
  have r: "snd (FindBolusPosition s wTac n 0 v v) = n - post_N s - 1"
    using pk en by (simp add: FindBolusPosition_def Let_def max_def min_def)
  from en r show ?thesis by simp
qed

theorem FindBolusPosition_flat_end_witness:
  "arr curve3 0 = 5 \<and> arr curve3 5 = 5 \<and> 0 \<le> post_N statics2 \<and> (1::int) \<le> 6
   \<and> end_loop (arr curve3) (6 - post_N statics2) (5 - 0) 0 2 5 = 4
   \<and> snd (FindBolusPosition statics2 (arr curve3) 6 0 5 5) = 3"
proof -
  have a: "\<forall>t. 0 \<le> t \<and> t < 6 \<longrightarrow> arr curve3 t = 5"
  proof (intro allI impI)
    fix t :: int assume "0 \<le> t \<and> t < 6"
    then have "t = 0 \<or> t = 1 \<or> t = 2 \<or> t = 3 \<or> t = 4 \<or> t = 5" by arith
    then show "arr curve3 t = 5" by (auto simp: arr_def curve3_def)
  qed
  have b: "0 \<le> post_N statics2" "(1::int) \<le> 6" "post_N statics2 = 2"
    by (simp_all add: statics2_def)
  note T = FindBolusPosition_flat_end [OF a b(1) b(2)]
  from T have e: "end_loop (arr curve3) (6 - post_N statics2) (5 - 0) 0 2 5
      = max 2 (6 - post_N statics2)" by blast
  from T have f: "snd (FindBolusPosition statics2 (arr curve3) 6 0 5 5)
      = 6 - post_N statics2 - 1" by blast
  have g: "arr curve3 0 = 5" "arr curve3 5 = 5" using a by simp_all
  show ?thesis unfolding e f using b g by simp
qed

text \<open>C3, as stated, fails: the flat curve \<open>curve3\<close> of six frames with
  \<open>pre_N = post_N = 2\<close> gets the window \<open>(0, 3)\<close>, whose start is below its end, so
  the voxel is not rejected.\<close>

theorem FindBolusPosition_flat_accepted:
  "FindBolusPosition statics2 (arr curve3) 6 0 5 5 = (0, 3)
   \<and> \<not> (fst (FindBolusPosition statics2 (arr curve3) 6 0 5 5)
          \<ge> snd (FindBolusPosition statics2 (arr curve3) 6 0 5 5))"
  by code_simp

section \<open>The calibration loops of M6_ModelInit\<close>

lemma Min_insert_min:
  assumes "finite S"
  shows "Min (insert (min m g) S) = Min (insert m (insert g S))"
proof (cases "S = {}")
  case True
  then show ?thesis by simp
next
  case False
  then show ?thesis using assms by (simp add: min.assoc)
qed

lemma MinSi_loop_fst:
  "fst (MinSi_loop G w n t m rd) = Min (insert m ((\<lambda>i. G (w + i)) ` {t..n - 1}))"
proof (induction G w n t m rd rule: MinSi_loop.induct)
  case (1 G wTac n t MinSi rd)
  show ?case
  proof (cases "t < n")
    case False
    then have "{t..n - 1} = {}" by simp
    with False show ?thesis by (simp add: MinSi_loop.simps [of G wTac n t])
  next
    case True
    have s: "{t..n - 1} = insert t {t + 1..n - 1}" using True by auto
    have "fst (MinSi_loop G wTac n t MinSi rd)
        = Min (insert (min MinSi (G (wTac + t))) ((\<lambda>i. G (wTac + i)) ` {t + 1..n - 1}))"
      using "1.IH" [OF True] True by (simp add: MinSi_loop.simps [of G wTac n t])
    also have "\<dots> = Min (insert MinSi (insert (G (wTac + t)) ((\<lambda>i. G (wTac + i)) ` {t + 1..n - 1})))"
      by (rule Min_insert_min) simp
    also have "\<dots> = Min (insert MinSi ((\<lambda>i. G (wTac + i)) ` {t..n - 1}))"
      unfolding s by simp
    finally show ?thesis .
  qed
qed

lemma MinSi_loop_snd:
  "snd (MinSi_loop G w n t m rd) = rd @ map (\<lambda>i. w + i) [t..n - 1]"
proof (induction G w n t m rd rule: MinSi_loop.induct)
  case (1 G wTac n t MinSi rd)
  show ?case
  proof (cases "t < n")
    case False
    then have "[t..n - 1] = []" by simp
    with False show ?thesis by (simp add: MinSi_loop.simps [of G wTac n t])
  next
    case True
    have s: "[t..n - 1] = t # [t + 1..n - 1]" using True by (simp add: upto_rec1)
    show ?thesis
      using "1.IH" [OF True] True unfolding s
      by (simp add: MinSi_loop.simps [of G wTac n t])
  qed
qed

lemma pre_N_loop_char:
  assumes "pre_N_loop G w n MinSi Thr p rd = (p', rd')"
  shows "p \<le> p' \<and> p' \<le> max p n
    \<and> (\<forall>i. p \<le> i \<and> i < p' \<longrightarrow> i < n \<and> Thr \<le> G (w + i) - MinSi)
    \<and> (p' < n \<longrightarrow> G (w + p') - MinSi < Thr)
    \<and> rd' = rd @ map (\<lambda>i. w + i) [p..min p' (n - 1)]"
  using assms
proof (induction G w n MinSi Thr p rd rule: pre_N_loop.induct)
  case (1 G wTac n MinSi Thr p rd)
  show ?case
  proof (cases "p < n")
    case False
    then have r: "p' = p" "rd' = rd"
      using "1.prems" by (simp_all add: pre_N_loop.simps [of G wTac n MinSi Thr p])
    have "[p..min p (n - 1)] = []" using False by simp
    with False show ?thesis unfolding r by simp
  next
    case True
    show ?thesis
    proof (cases "G (wTac + p) - MinSi < Thr")
      case brk: True
      then have r: "p' = p" "rd' = rd @ [wTac + p]"
        using True "1.prems" by (auto simp add: pre_N_loop.simps [of G wTac n MinSi Thr p])
      have "[p..min p (n - 1)] = [p]" using True by (simp add: upto_rec1)
      with brk True show ?thesis unfolding r by simp
    next
      case go: False
      have call: "pre_N_loop G wTac n MinSi Thr (p + 1) (rd @ [wTac + p]) = (p', rd')"
        using True go "1.prems" by (simp add: pre_N_loop.simps [of G wTac n MinSi Thr p])
      note ih = "1.IH" [OF True go call]
      have a: "p \<le> p'" "p + 1 \<le> p'" using ih by arith+
      have b: "p' \<le> max p n" using ih True by (simp add: max_def split: if_splits)
      have c: "\<forall>i. p \<le> i \<and> i < p' \<longrightarrow> i < n \<and> Thr \<le> G (wTac + i) - MinSi"
      proof (intro allI impI)
        fix i assume h: "p \<le> i \<and> i < p'"
        then have "i = p \<or> p + 1 \<le> i" by arith
        then show "i < n \<and> Thr \<le> G (wTac + i) - MinSi"
        proof
          assume "i = p"
          with True go show ?thesis by simp
        next
          assume "p + 1 \<le> i"
          with ih h show ?thesis by blast
        qed
      qed
      have d: "p' < n \<longrightarrow> G (wTac + p') - MinSi < Thr" using ih by blast
      have "p \<le> min p' (n - 1)" using a True by simp
      then have "[p..min p' (n - 1)] = p # [p + 1..min p' (n - 1)]" by (simp add: upto_rec1)
      moreover have "rd' = (rd @ [wTac + p]) @ map (\<lambda>i. wTac + i) [p + 1..min p' (n - 1)]"
        using ih by blast
      ultimately have e: "rd' = rd @ map (\<lambda>i. wTac + i) [p..min p' (n - 1)]" by simp
      from a(1) b c d e show ?thesis by blast
    qed
  qed
qed

lemma post_N_loop_char:
  assumes "post_N_loop G w n MinSi Thr q rd = (q', rd')"
  shows "q \<le> q' \<and> q' \<le> max q n
    \<and> (\<forall>i. q \<le> i \<and> i < q' \<longrightarrow> i < n \<and> Thr \<le> G (w + (- i)) - MinSi)
    \<and> (q' < n \<longrightarrow> G (w + (- q')) - MinSi < Thr)
    \<and> rd' = rd @ map (\<lambda>i. w + (- i)) [q..min q' (n - 1)]"
  using assms
proof (induction G w n MinSi Thr q rd rule: post_N_loop.induct)
  case (1 G wTacEnd n MinSi Thr q rd)
  show ?case
  proof (cases "q < n")
    case False
    then have r: "q' = q" "rd' = rd"
      using "1.prems" by (simp_all add: post_N_loop.simps [of G wTacEnd n MinSi Thr q])
    have "[q..min q (n - 1)] = []" using False by simp
    with False show ?thesis unfolding r by simp
  next
    case True
    show ?thesis
    proof (cases "G (wTacEnd + (- q)) - MinSi < Thr")
      case brk: True
      then have r: "q' = q" "rd' = rd @ [wTacEnd + (- q)]"
        using True "1.prems" by (auto simp add: post_N_loop.simps [of G wTacEnd n MinSi Thr q])
      have "[q..min q (n - 1)] = [q]" using True by (simp add: upto_rec1)
      with brk True show ?thesis unfolding r by simp
    next
      case go: False
      have call: "post_N_loop G wTacEnd n MinSi Thr (q + 1) (rd @ [wTacEnd + (- q)]) = (q', rd')"
        using True go "1.prems" by (simp add: post_N_loop.simps [of G wTacEnd n MinSi Thr q])
      note ih = "1.IH" [OF True go call]
      have a: "q \<le> q'" "q + 1 \<le> q'" using ih by arith+
      have b: "q' \<le> max q n" using ih True by (simp add: max_def split: if_splits)
      have c: "\<forall>i. q \<le> i \<and> i < q' \<longrightarrow> i < n \<and> Thr \<le> G (wTacEnd + (- i)) - MinSi"
      proof (intro allI impI)
        fix i assume h: "q \<le> i \<and> i < q'"
        then have "i = q \<or> q + 1 \<le> i" by arith
        then show "i < n \<and> Thr \<le> G (wTacEnd + (- i)) - MinSi"
        proof
          assume "i = q"
          with True go show ?thesis by simp
        next
          assume "q + 1 \<le> i"
          with ih h show ?thesis by blast
        qed
      qed
      have d: "q' < n \<longrightarrow> G (wTacEnd + (- q')) - MinSi < Thr" using ih by blast
      have "q \<le> min q' (n - 1)" using a True by simp
      then have "[q..min q' (n - 1)] = q # [q + 1..min q' (n - 1)]" by (simp add: upto_rec1)
      moreover have "rd' = (rd @ [wTacEnd + (- q)]) @ map (\<lambda>i. wTacEnd + (- i)) [q + 1..min q' (n - 1)]"
        using ih by blast
      ultimately have e: "rd' = rd @ map (\<lambda>i. wTacEnd + (- i)) [q..min q' (n - 1)]" by simp
      from a(1) b c d e show ?thesis by blast
    qed
  qed
qed

lemma M6_ModelInit_run:
  assumes roi: "NumRoiTac g \<le> 1"
    and al: "PR_MakeRelativeArr c (AbsTarr g) (NumTms g) = Some T"
    and n: "n = NumTms g - trunc_int (M6_FreeParm g 1)"
    and G: "G = GlobalTac g"
    and m: "MinSi_loop G 2 n 1 (G 2) [2, 2 + (n - 1)] = (MinSi, rd1)"
    and p: "pre_N_loop G 2 n MinSi ((G 2 - MinSi) * PRE_N_THR) 1 rd1 = (p, rd2)"
    and q: "post_N_loop G (2 + n - 1) n MinSi ((G (2 + (n - 1)) - MinSi) * POST_N_THR) 1 rd2
              = (q, rd3)"
    and out: "out = M6_ModelInit c Integral Tac0 g s"
  shows "pre_N (st out) = p" and "post_N (st out) = q" and "wNumTms (st out) = n"
    and "SkipTimes (st out) = trunc_int (M6_FreeParm g 1)"
    and "AirThresh (st out) = M6_FreeParm g 0 * demp_NoiseLevel g"
    and "Tarr (st out) = Some T"
    and "reads out = rd3" and "fw out = g"
    and "res out = (NumRoiTac g = 1 \<longrightarrow>
           \<not> IsAir_ByMin c (Tac_loop (RoiTacArr g 0) (NumTms g) 0 Tac0) (of_int (NumTms g)))"
    and "WhiteMatterNorm (st out) =
           (if NumRoiTac g = 1 then
              (if IsAir_ByMin c (Tac_loop (RoiTacArr g 0) (NumTms g) 0 Tac0) (of_int (NumTms g))
               then WhiteMatterNorm s else ONE / Integral)
            else ONE)"
  using roi al m p q unfolding out n G
  by (simp_all add: M6_ModelInit_def Let_def PASS_START_def)

lemma Max_int_interval: "a \<le> b \<Longrightarrow> Max {a..b::int} = b"
  by (rule Max_eqI) auto

lemma M6_ModelInit_reads:
  assumes roi: "NumRoiTac g \<le> 1"
    and al: "PR_MakeRelativeArr c (AbsTarr g) (NumTms g) \<noteq> None"
    and n: "n = NumTms g - trunc_int (M6_FreeParm g 1)"
    and out: "out = M6_ModelInit c Integral Tac0 g s"
  shows "\<exists>p q. set (reads out) =
      {2, 2 + (n - 1)} \<union> (\<lambda>i. 2 + i) ` {1..n - 1} \<union> (\<lambda>i. 2 + i) ` {1..min p (n - 1)}
        \<union> (\<lambda>i. 2 + n - 1 + (- i)) ` {1..min q (n - 1)}"
proof -
  obtain T where T: "PR_MakeRelativeArr c (AbsTarr g) (NumTms g) = Some T"
    using al by blast
  define G where "G = GlobalTac g"
  obtain MinSi rd1 where m: "MinSi_loop G 2 n 1 (G 2) [2, 2 + (n - 1)] = (MinSi, rd1)"
    by (cases "MinSi_loop G 2 n 1 (G 2) [2, 2 + (n - 1)]") blast
  obtain p rd2 where p: "pre_N_loop G 2 n MinSi ((G 2 - MinSi) * PRE_N_THR) 1 rd1 = (p, rd2)"
    by (cases "pre_N_loop G 2 n MinSi ((G 2 - MinSi) * PRE_N_THR) 1 rd1") blast
  obtain q rd3 where q:
    "post_N_loop G (2 + n - 1) n MinSi ((G (2 + (n - 1)) - MinSi) * POST_N_THR) 1 rd2 = (q, rd3)"
    by (cases "post_N_loop G (2 + n - 1) n MinSi ((G (2 + (n - 1)) - MinSi) * POST_N_THR) 1 rd2")
      blast
  have r: "reads out = rd3"
    by (rule M6_ModelInit_run(7) [OF roi T n G_def m p q out])
  have r1: "rd1 = [2, 2 + (n - 1)] @ map (\<lambda>i. 2 + i) [1..n - 1]"
    using MinSi_loop_snd [of G 2 n 1 "G 2" "[2, 2 + (n - 1)]"] m by simp
  have r2: "rd2 = rd1 @ map (\<lambda>i. 2 + i) [1..min p (n - 1)]"
    using pre_N_loop_char [OF p] by blast
  have r3: "rd3 = rd2 @ map (\<lambda>i. 2 + n - 1 + (- i)) [1..min q (n - 1)]"
    using post_N_loop_char [OF q] by blast
  have "set (reads out) =
      {2, 2 + (n - 1)} \<union> (\<lambda>i. 2 + i) ` {1..n - 1} \<union> (\<lambda>i. 2 + i) ` {1..min p (n - 1)}
        \<union> (\<lambda>i. 2 + n - 1 + (- i)) ` {1..min q (n - 1)}"
    unfolding r r3 r2 r1 by (simp add: Un_assoc)
  then show ?thesis by blast
qed

lemma M6_ModelInit_reads_window:
  assumes roi: "NumRoiTac g \<le> 1"
    and al: "PR_MakeRelativeArr c (AbsTarr g) (NumTms g) \<noteq> None"
    and n: "n = NumTms g - trunc_int (M6_FreeParm g 1)"
    and out: "out = M6_ModelInit c Integral Tac0 g s"
    and pos: "1 \<le> n"
  shows "set (reads out) = {2..n + 1}"
proof -
  from M6_ModelInit_reads [OF roi al n out] obtain p q where
    s: "set (reads out) =
      {2, 2 + (n - 1)} \<union> (\<lambda>i. 2 + i) ` {1..n - 1} \<union> (\<lambda>i. 2 + i) ` {1..min p (n - 1)}
        \<union> (\<lambda>i. 2 + n - 1 + (- i)) ` {1..min q (n - 1)}" by blast
  have a: "(\<lambda>i. 2 + i) ` {1..n - 1} = {3..n + 1}"
    using image_add_atLeastAtMost [of 2 1 "n - 1"] by (simp add: add.commute)
  have b: "(\<lambda>i. 2 + i) ` {1..min p (n - 1)} \<subseteq> {2..n + 1}" by auto
  have c: "(\<lambda>i. 2 + n - 1 + (- i)) ` {1..min q (n - 1)} \<subseteq> {2..n + 1}" by auto
  have d: "{2, 2 + (n - 1)} \<union> {3..n + 1} = {2..n + 1}" using pos by auto
  show ?thesis unfolding s a using b c d by blast
qed

text \<open>C10. Whenever the calibration scans run (at most one reference ROI, time
  array allocated), \<^verbatim>\<open>M6_ModelInit\<close> reads \<^verbatim>\<open>GlobalTac\<close> at index
  \<open>NumTms + 1 - SkipTimes\<close> (the read of \<open>SB\<close>); with a working length of at least
  one frame the indices read are exactly \<open>PASS_START + t\<close> for \<open>t\<close> in
  \<open>[0, wNumTms - 1]\<close>, the largest being \<open>NumTms + 1 - SkipTimes\<close>. For
  \<open>SkipTimes < 2\<close> an index above \<open>NumTms - 1\<close>, the last index of a curve of
  \<open>NumTms\<close> frames, is read; with the default \<open>SkipTimes = 0\<close> (and at least two
  frames) both \<open>NumTms\<close> and \<open>NumTms + 1\<close> are read.\<close>

theorem M6_ModelInit_reads_past_end:
  assumes "NumRoiTac g \<le> 1"
    and "PR_MakeRelativeArr c (AbsTarr g) (NumTms g) \<noteq> None"
    and "out = M6_ModelInit c Integral Tac0 g s"
    and "sk = trunc_int (M6_FreeParm g 1)"
  shows "SkipTimes (st out) = sk \<and> wNumTms (st out) = NumTms g - sk
    \<and> NumTms g + 1 - sk \<in> set (reads out)
    \<and> (1 \<le> wNumTms (st out) \<longrightarrow>
         set (reads out) = (\<lambda>t. PASS_START + t) ` {0..wNumTms (st out) - 1}
         \<and> Max (set (reads out)) = NumTms g + 1 - sk)
    \<and> (sk < 2 \<longrightarrow> (\<exists>i. i \<in> set (reads out) \<and> NumTms g - 1 < i))
    \<and> (M6_FreeParm g 1 = M6_FreeParmDefault 1 \<and> 2 \<le> NumTms g \<longrightarrow>
         NumTms g \<in> set (reads out) \<and> NumTms g + 1 \<in> set (reads out)
         \<and> Max (set (reads out)) = NumTms g + 1)"
proof -
  define n where "n = NumTms g - trunc_int (M6_FreeParm g 1)"
  obtain T where T: "PR_MakeRelativeArr c (AbsTarr g) (NumTms g) = Some T"
    using assms(2) by blast
  define G where "G = GlobalTac g"
  obtain MinSi rd1 where m: "MinSi_loop G 2 n 1 (G 2) [2, 2 + (n - 1)] = (MinSi, rd1)"
    by (cases "MinSi_loop G 2 n 1 (G 2) [2, 2 + (n - 1)]") blast
  obtain p rd2 where p: "pre_N_loop G 2 n MinSi ((G 2 - MinSi) * PRE_N_THR) 1 rd1 = (p, rd2)"
    by (cases "pre_N_loop G 2 n MinSi ((G 2 - MinSi) * PRE_N_THR) 1 rd1") blast
  obtain q rd3 where q:
    "post_N_loop G (2 + n - 1) n MinSi ((G (2 + (n - 1)) - MinSi) * POST_N_THR) 1 rd2 = (q, rd3)"
    by (cases "post_N_loop G (2 + n - 1) n MinSi ((G (2 + (n - 1)) - MinSi) * POST_N_THR) 1 rd2")
      blast
  note run = M6_ModelInit_run [OF assms(1) T n_def G_def m p q assms(3)]
  have sk: "SkipTimes (st out) = sk" using run(4) assms(4) by simp
  have wn: "wNumTms (st out) = NumTms g - sk" using run(3) assms(4) n_def by simp
  have nn: "n = NumTms g - sk" using n_def assms(4) by simp
  from M6_ModelInit_reads [OF assms(1,2) n_def assms(3)]
  have sb: "2 + (n - 1) \<in> set (reads out)" by auto
  then have SB: "NumTms g + 1 - sk \<in> set (reads out)" unfolding nn by (simp add: algebra_simps)
  have win: "set (reads out) = {2..n + 1}" if "1 \<le> n"
    by (rule M6_ModelInit_reads_window [OF assms(1,2) n_def assms(3) that])
  have W: "1 \<le> wNumTms (st out) \<longrightarrow>
         set (reads out) = (\<lambda>t. PASS_START + t) ` {0..wNumTms (st out) - 1}
         \<and> Max (set (reads out)) = NumTms g + 1 - sk"
  proof
    assume "1 \<le> wNumTms (st out)"
    then have pos: "1 \<le> n" using wn nn by simp
    have i: "(\<lambda>t. PASS_START + t) ` {0..n - 1} = {2..n + 1}"
      using image_add_atLeastAtMost [of 2 0 "n - 1"] by (simp add: PASS_START_def add.commute)
    have "set (reads out) = {2..n + 1}" by (rule win [OF pos])
    also have "\<dots> = (\<lambda>t. PASS_START + t) ` {0..n - 1}" by (rule i [symmetric])
    finally have e1: "set (reads out) = (\<lambda>t. PASS_START + t) ` {0..wNumTms (st out) - 1}"
      unfolding wn nn .
    have "Max {2..n + 1} = n + 1" using pos by (simp add: Max_int_interval)
    then have e2: "Max (set (reads out)) = NumTms g + 1 - sk"
      unfolding win [OF pos] nn by simp
    from e1 e2 show "set (reads out) = (\<lambda>t. PASS_START + t) ` {0..wNumTms (st out) - 1}
         \<and> Max (set (reads out)) = NumTms g + 1 - sk" by blast
  qed
  have P: "sk < 2 \<longrightarrow> (\<exists>i. i \<in> set (reads out) \<and> NumTms g - 1 < i)"
  proof
    assume "sk < 2"
    then have "NumTms g - 1 < NumTms g + 1 - sk" by simp
    with SB show "\<exists>i. i \<in> set (reads out) \<and> NumTms g - 1 < i" by blast
  qed
  have D: "M6_FreeParm g 1 = M6_FreeParmDefault 1 \<and> 2 \<le> NumTms g \<longrightarrow>
         NumTms g \<in> set (reads out) \<and> NumTms g + 1 \<in> set (reads out)
         \<and> Max (set (reads out)) = NumTms g + 1"
  proof
    assume h: "M6_FreeParm g 1 = M6_FreeParmDefault 1 \<and> 2 \<le> NumTms g"
    then have "M6_FreeParm g 1 = 0" by (simp add: M6_FreeParmDefault_def arr_def)
    then have "sk = 0" using assms(4) by (simp add: trunc_int_def)
    then have n2: "n = NumTms g" "2 \<le> n" using nn h by simp_all
    then have "set (reads out) = {2..n + 1}" using win by simp
    moreover have "Max {2..n + 1} = n + 1" using n2 by (simp add: Max_int_interval)
    ultimately show "NumTms g \<in> set (reads out) \<and> NumTms g + 1 \<in> set (reads out)
         \<and> Max (set (reads out)) = NumTms g + 1"
      using n2 by simp
  qed
  from sk wn SB W P D show ?thesis by blast
qed

theorem M6_ModelInit_reads_past_end_witness:
  "NumRoiTac framework10 \<le> 1
   \<and> PR_MakeRelativeArr collab0 (AbsTarr framework10) (NumTms framework10) \<noteq> None
   \<and> trunc_int (M6_FreeParm framework10 1) < 2
   \<and> M6_FreeParm framework10 1 = M6_FreeParmDefault 1 \<and> 2 \<le> NumTms framework10
   \<and> 1 \<le> wNumTms (st (M6_ModelInit collab0 0 (\<lambda>t. 0) framework10 statics0))
   \<and> 6 \<in> set (reads (M6_ModelInit collab0 0 (\<lambda>t. 0) framework10 statics0))
   \<and> 7 \<in> set (reads (M6_ModelInit collab0 0 (\<lambda>t. 0) framework10 statics0))
   \<and> Max (set (reads (M6_ModelInit collab0 0 (\<lambda>t. 0) framework10 statics0))) = 7"
proof -
  have a: "NumRoiTac framework10 \<le> 1" by (simp add: framework10_def)
  have b: "PR_MakeRelativeArr collab0 (AbsTarr framework10) (NumTms framework10) \<noteq> None"
    by (simp add: collab0_def)
  have c: "trunc_int (M6_FreeParm framework10 1) = 0"
    by (simp add: framework10_def M6_FreeParmDefault_def arr_def trunc_int_def)
  have d: "M6_FreeParm framework10 1 = M6_FreeParmDefault 1" "NumTms framework10 = 6"
    by (simp_all add: framework10_def)
  let ?out = "M6_ModelInit collab0 0 (\<lambda>t. 0) framework10 statics0"
  note T = M6_ModelInit_reads_past_end [OF a b refl refl, of 0 "\<lambda>t. 0" statics0]
  from T have w: "wNumTms (st ?out)
      = NumTms framework10 - trunc_int (M6_FreeParm framework10 1)" by blast
  from T have D: "M6_FreeParm framework10 1 = M6_FreeParmDefault 1 \<and> 2 \<le> NumTms framework10
      \<longrightarrow> NumTms framework10 \<in> set (reads ?out) \<and> NumTms framework10 + 1 \<in> set (reads ?out)
         \<and> Max (set (reads ?out)) = NumTms framework10 + 1" by blast
  have e: "6 \<in> set (reads ?out)" "7 \<in> set (reads ?out)" "Max (set (reads ?out)) = 7"
    using D d by simp_all
  have f: "1 \<le> wNumTms (st ?out)" using w c d by simp
  show ?thesis using a b c d e f by simp
qed

section \<open>Series initialisation\<close>

lemma M6_ModelInit_res:
  "res (M6_ModelInit c Integral Tac0 g s) =
     (NumRoiTac g \<le> 1 \<and> PR_MakeRelativeArr c (AbsTarr g) (NumTms g) \<noteq> None
      \<and> (NumRoiTac g = 1 \<longrightarrow>
           \<not> IsAir_ByMin c (Tac_loop (RoiTacArr g 0) (NumTms g) 0 Tac0) (of_int (NumTms g))))"
  by (simp add: M6_ModelInit_def Let_def split_def)

lemma M6_ModelInit_fw: "fw (M6_ModelInit c Integral Tac0 g s) = g"
  by (simp add: M6_ModelInit_def Let_def split_def)

lemma M6_ModelInit_windows:
  assumes roi: "NumRoiTac g \<le> 1"
    and al: "PR_MakeRelativeArr c (AbsTarr g) (NumTms g) \<noteq> None"
    and out: "out = M6_ModelInit c Integral Tac0 g s"
    and n: "n = NumTms g - trunc_int (M6_FreeParm g 1)"
    and pos: "1 \<le> n"
    and w: "w = (\<lambda>i. GlobalTac g (PASS_START + i))"
    and M: "MinSi = Min (w ` {0..n - 1})"
  shows "wNumTms (st out) = n"
    and "1 \<le> pre_N (st out) \<and> pre_N (st out) \<le> n
      \<and> (\<forall>i. 1 \<le> i \<and> i < pre_N (st out) \<longrightarrow> (w 0 - MinSi) * PRE_N_THR \<le> w i - MinSi)
      \<and> (pre_N (st out) < n \<longrightarrow> w (pre_N (st out)) - MinSi < (w 0 - MinSi) * PRE_N_THR)"
    and "1 \<le> post_N (st out) \<and> post_N (st out) \<le> n
      \<and> (\<forall>j. 1 \<le> j \<and> j < post_N (st out) \<longrightarrow>
            (w (n - 1) - MinSi) * POST_N_THR \<le> w (n - 1 - j) - MinSi)
      \<and> (post_N (st out) < n \<longrightarrow>
            w (n - 1 - post_N (st out)) - MinSi < (w (n - 1) - MinSi) * POST_N_THR)"
proof -
  obtain T where T: "PR_MakeRelativeArr c (AbsTarr g) (NumTms g) = Some T"
    using al by blast
  define G where "G = GlobalTac g"
  obtain m rd1 where m: "MinSi_loop G 2 n 1 (G 2) [2, 2 + (n - 1)] = (m, rd1)"
    by (cases "MinSi_loop G 2 n 1 (G 2) [2, 2 + (n - 1)]") blast
  obtain p rd2 where p: "pre_N_loop G 2 n m ((G 2 - m) * PRE_N_THR) 1 rd1 = (p, rd2)"
    by (cases "pre_N_loop G 2 n m ((G 2 - m) * PRE_N_THR) 1 rd1") blast
  obtain q rd3 where q:
    "post_N_loop G (2 + n - 1) n m ((G (2 + (n - 1)) - m) * POST_N_THR) 1 rd2 = (q, rd3)"
    by (cases "post_N_loop G (2 + n - 1) n m ((G (2 + (n - 1)) - m) * POST_N_THR) 1 rd2")
      blast
  note run = M6_ModelInit_run [OF roi T n G_def m p q out]
  have wG: "w i = G (2 + i)" for i by (simp add: w G_def PASS_START_def)
  have "{0..n - 1} = insert 0 {1..n - 1}" using pos by auto
  then have "w ` {0..n - 1} = insert (G 2) ((\<lambda>i. G (2 + i)) ` {1..n - 1})"
    using wG by auto
  moreover have "m = Min (insert (G 2) ((\<lambda>i. G (2 + i)) ` {1..n - 1}))"
    using MinSi_loop_fst [of G 2 n 1 "G 2" "[2, 2 + (n - 1)]"] m by simp
  ultimately have mM: "m = MinSi" using M by simp
  have mx: "max 1 n = n" using pos by simp
  show "wNumTms (st out) = n" by (rule run(3))
  from pre_N_loop_char [OF p]
  have "1 \<le> p \<and> p \<le> n
    \<and> (\<forall>i. 1 \<le> i \<and> i < p \<longrightarrow> (G 2 - m) * PRE_N_THR \<le> G (2 + i) - m)
    \<and> (p < n \<longrightarrow> G (2 + p) - m < (G 2 - m) * PRE_N_THR)"
    unfolding mx by blast
  then show "1 \<le> pre_N (st out) \<and> pre_N (st out) \<le> n
      \<and> (\<forall>i. 1 \<le> i \<and> i < pre_N (st out) \<longrightarrow> (w 0 - MinSi) * PRE_N_THR \<le> w i - MinSi)
      \<and> (pre_N (st out) < n \<longrightarrow> w (pre_N (st out)) - MinSi < (w 0 - MinSi) * PRE_N_THR)"
    unfolding run(1) wG mM by simp
  have e: "2 + n - 1 + (- j) = 2 + (n - 1 - j)" for j :: int by simp
  from post_N_loop_char [OF q]
  have "1 \<le> q \<and> q \<le> n
    \<and> (\<forall>j. 1 \<le> j \<and> j < q \<longrightarrow> (G (2 + (n - 1)) - m) * POST_N_THR \<le> G (2 + (n - 1 - j)) - m)
    \<and> (q < n \<longrightarrow> G (2 + (n - 1 - q)) - m < (G (2 + (n - 1)) - m) * POST_N_THR)"
    unfolding mx e by blast
  then show "1 \<le> post_N (st out) \<and> post_N (st out) \<le> n
      \<and> (\<forall>j. 1 \<le> j \<and> j < post_N (st out) \<longrightarrow>
            (w (n - 1) - MinSi) * POST_N_THR \<le> w (n - 1 - j) - MinSi)
      \<and> (post_N (st out) < n \<longrightarrow>
            w (n - 1 - post_N (st out)) - MinSi < (w (n - 1) - MinSi) * POST_N_THR)"
    unfolding run(2) wG mM by simp
qed

lemma M6_ModelInit_flat:
  assumes roi: "NumRoiTac g \<le> 1"
    and al: "PR_MakeRelativeArr c (AbsTarr g) (NumTms g) \<noteq> None"
    and out: "out = M6_ModelInit c Integral Tac0 g s"
    and n: "n = NumTms g - trunc_int (M6_FreeParm g 1)"
    and pos: "1 \<le> n"
    and flat: "\<forall>i. 0 \<le> i \<and> i < n \<longrightarrow> GlobalTac g (PASS_START + i) = v"
  shows "wNumTms (st out) = n \<and> pre_N (st out) = n \<and> post_N (st out) = n"
proof -
  define w where "w = (\<lambda>i. GlobalTac g (PASS_START + i))"
  define MinSi where "MinSi = Min (w ` {0..n - 1})"
  have wv: "w i = v" if "0 \<le> i" "i < n" for i using flat that by (simp add: w_def)
  have "w ` {0..n - 1} = {v}"
  proof
    show "w ` {0..n - 1} \<subseteq> {v}" using wv by auto
    have "w 0 \<in> w ` {0..n - 1}" using pos by (intro imageI) simp
    then show "{v} \<subseteq> w ` {0..n - 1}" using wv [of 0] pos by simp
  qed
  then have M: "MinSi = v" by (simp add: MinSi_def)
  note W = M6_ModelInit_windows [OF roi al out n pos w_def MinSi_def]
  have w0: "w 0 = v" "w (n - 1) = v" using wv pos by simp_all
  have "\<not> pre_N (st out) < n"
  proof
    assume lt: "pre_N (st out) < n"
    moreover have "1 \<le> pre_N (st out)" using W(2) by blast
    ultimately have "w (pre_N (st out)) = v" using wv by simp
    moreover have "w (pre_N (st out)) - MinSi < (w 0 - MinSi) * PRE_N_THR"
      using W(2) lt by blast
    ultimately show False using M w0 by simp
  qed
  moreover have "pre_N (st out) \<le> n" using W(2) by blast
  ultimately have p: "pre_N (st out) = n" by simp
  have "\<not> post_N (st out) < n"
  proof
    assume lt: "post_N (st out) < n"
    moreover have "1 \<le> post_N (st out)" using W(3) by blast
    ultimately have "w (n - 1 - post_N (st out)) = v" using wv by simp
    moreover have "w (n - 1 - post_N (st out)) - MinSi < (w (n - 1) - MinSi) * POST_N_THR"
      using W(3) lt by blast
    ultimately show False using M w0 by simp
  qed
  moreover have "post_N (st out) \<le> n" using W(3) by blast
  ultimately have q: "post_N (st out) = n" by simp
  from W(1) p q show ?thesis by blast
qed

text \<open>C7, as the code has it. The calibration scans the window
  \<open>w[i] = GlobalTac[PASS_START + i]\<close>, \<open>0 \<le> i < wNumTms = NumTms - SkipTimes\<close>, of the
  global curve, not the curve from its index \<open>0\<close>. When this window lies inside the
  global curve (\<open>SkipTimes \<ge> PASS_START\<close>, so that every index read is at most
  \<open>NumTms - 1\<close>) and has at least one frame, with \<open>SA = w[0]\<close>,
  \<open>SB = w[wNumTms - 1]\<close> and \<open>MinSi\<close> the minimum of the window: \<open>pre_N\<close> is the first
  index \<open>i \<ge> 1\<close> of the window with \<open>w[i] - MinSi < (SA - MinSi) * 0.95\<close>, or
  \<open>wNumTms\<close> if there is none; \<open>post_N\<close> is the first \<open>j \<ge> 1\<close> with
  \<open>w[wNumTms - 1 - j] - MinSi < (SB - MinSi) * 0.95\<close>, or \<open>wNumTms\<close> if there is none;
  the global curve is left as it was.\<close>

theorem M6_ModelInit_calibration_inside:
  assumes "NumRoiTac g \<le> 1"
    and "PR_MakeRelativeArr c (AbsTarr g) (NumTms g) \<noteq> None"
    and "out = M6_ModelInit c Integral Tac0 g s"
    and "n = NumTms g - trunc_int (M6_FreeParm g 1)"
    and "1 \<le> n"
    and "PASS_START \<le> trunc_int (M6_FreeParm g 1)"
    and "w = (\<lambda>i. GlobalTac g (PASS_START + i))"
    and "SA = w 0" and "SB = w (n - 1)" and "MinSi = Min (w ` {0..n - 1})"
  shows "wNumTms (st out) = n
    \<and> (\<forall>i. i \<in> set (reads out) \<longrightarrow> 0 \<le> i \<and> i \<le> NumTms g - 1)
    \<and> (1 \<le> pre_N (st out) \<and> pre_N (st out) \<le> n
      \<and> (\<forall>i. 1 \<le> i \<and> i < pre_N (st out) \<longrightarrow> (SA - MinSi) * PRE_N_THR \<le> w i - MinSi)
      \<and> (pre_N (st out) < n \<longrightarrow> w (pre_N (st out)) - MinSi < (SA - MinSi) * PRE_N_THR))
    \<and> (1 \<le> post_N (st out) \<and> post_N (st out) \<le> n
      \<and> (\<forall>j. 1 \<le> j \<and> j < post_N (st out) \<longrightarrow>
            (SB - MinSi) * POST_N_THR \<le> w (n - 1 - j) - MinSi)
      \<and> (post_N (st out) < n \<longrightarrow>
            w (n - 1 - post_N (st out)) - MinSi < (SB - MinSi) * POST_N_THR))
    \<and> GlobalTac (fw out) = GlobalTac g"
proof -
  note W = M6_ModelInit_windows [OF assms(1) assms(2) assms(3) assms(4) assms(5) assms(7)
      assms(10)]
  have f: "GlobalTac (fw out) = GlobalTac g"
    unfolding assms(3) by (simp add: M6_ModelInit_fw)
  have rs: "set (reads out) = {2..n + 1}"
    by (rule M6_ModelInit_reads_window [OF assms(1) assms(2) assms(4) assms(3) assms(5)])
  have "n + 1 \<le> NumTms g - 1"
    using assms(6) unfolding assms(4) by (simp add: PASS_START_def)
  then have b: "\<forall>i. i \<in> set (reads out) \<longrightarrow> 0 \<le> i \<and> i \<le> NumTms g - 1"
    unfolding rs by auto
  from W f b show ?thesis unfolding assms(8) assms(9) by blast
qed

theorem M6_ModelInit_calibration_inside_witness:
  "NumRoiTac framework7 \<le> 1
   \<and> PR_MakeRelativeArr collab0 (AbsTarr framework7) (NumTms framework7) \<noteq> None
   \<and> 1 \<le> NumTms framework7 - trunc_int (M6_FreeParm framework7 1)
   \<and> PASS_START \<le> trunc_int (M6_FreeParm framework7 1)
   \<and> wNumTms (st (M6_ModelInit collab0 0 (\<lambda>t. 0) framework7 statics0)) = 5
   \<and> 1 \<le> pre_N (st (M6_ModelInit collab0 0 (\<lambda>t. 0) framework7 statics0))
   \<and> post_N (st (M6_ModelInit collab0 0 (\<lambda>t. 0) framework7 statics0)) \<le> 5
   \<and> GlobalTac (fw (M6_ModelInit collab0 0 (\<lambda>t. 0) framework7 statics0)) = arr global7"
proof -
  let ?out = "M6_ModelInit collab0 0 (\<lambda>t. 0) framework7 statics0"
  have a: "NumRoiTac framework7 \<le> 1" by (simp add: framework7_def)
  have b: "PR_MakeRelativeArr collab0 (AbsTarr framework7) (NumTms framework7) \<noteq> None"
    by (simp add: collab0_def)
  have sk: "trunc_int (M6_FreeParm framework7 1) = 3"
    by (simp add: framework7_def arr_def trunc_int_def)
  have n: "NumTms framework7 - trunc_int (M6_FreeParm framework7 1) = 5"
    unfolding sk by (simp add: framework7_def)
  then have c: "1 \<le> NumTms framework7 - trunc_int (M6_FreeParm framework7 1)" by simp
  have d: "PASS_START \<le> trunc_int (M6_FreeParm framework7 1)"
    unfolding sk by (simp add: PASS_START_def)
  note T = M6_ModelInit_calibration_inside [OF a b refl refl c d refl refl refl refl,
      of 0 "\<lambda>t. 0" statics0]
  from T have "wNumTms (st ?out) = NumTms framework7 - trunc_int (M6_FreeParm framework7 1)"
    by blast
  then have w: "wNumTms (st ?out) = 5" using n by simp
  from T have p: "1 \<le> pre_N (st ?out)" by blast
  from T have "post_N (st ?out) \<le> NumTms framework7 - trunc_int (M6_FreeParm framework7 1)"
    by blast
  then have q: "post_N (st ?out) \<le> 5" using n by simp
  from T have "GlobalTac (fw ?out) = GlobalTac framework7" by blast
  then have f: "GlobalTac (fw ?out) = arr global7" by (simp add: framework7_def)
  from a b c d w p q f show ?thesis by blast
qed

text \<open>C7, as stated, fails: on \<open>framework7\<close> every read lies inside the global
  curve, the code finds \<open>(pre_N, post_N) = (1, 3)\<close>, and the calibration of the
  specification gives \<open>(3, 4)\<close> on the global curve and \<open>(5, 4)\<close> on the global curve
  without its three skipped frames.\<close>

theorem M6_ModelInit_calibration_offset:
  "pre_N (st (M6_ModelInit collab0 0 (\<lambda>t. 0) framework7 statics0)) = 1
   \<and> post_N (st (M6_ModelInit collab0 0 (\<lambda>t. 0) framework7 statics0)) = 3
   \<and> reads (M6_ModelInit collab0 0 (\<lambda>t. 0) framework7 statics0)
       = [2, 6, 3, 4, 5, 6, 3, 5, 4, 3]
   \<and> spec_Calibrate global7 = (3, 4)
   \<and> spec_Calibrate (drop 3 global7) = (5, 4)
   \<and> (pre_N (st (M6_ModelInit collab0 0 (\<lambda>t. 0) framework7 statics0)),
       post_N (st (M6_ModelInit collab0 0 (\<lambda>t. 0) framework7 statics0)))
      \<noteq> spec_Calibrate global7"
  by code_simp

text \<open>C8, as the code has it. \<^verbatim>\<open>M6_ModelInit\<close> makes no check of the window
  lengths: it fails exactly for more than one reference ROI, a time array that could
  not be allocated, or a reference ROI classified as air. When the calibration window
  of the global curve is flat, it sets \<open>pre_N = post_N = wNumTms\<close>, so that
  \<open>pre_N + post_N \<ge> wNumTms\<close>, and its return value is the same as for any other
  curve.\<close>

theorem M6_ModelInit_degenerate_not_detected:
  "res (M6_ModelInit c Integral Tac0 g s) =
     (NumRoiTac g \<le> 1 \<and> PR_MakeRelativeArr c (AbsTarr g) (NumTms g) \<noteq> None
      \<and> (NumRoiTac g = 1 \<longrightarrow>
           \<not> IsAir_ByMin c (Tac_loop (RoiTacArr g 0) (NumTms g) 0 Tac0) (of_int (NumTms g))))
   \<and> (NumRoiTac g \<le> 1 \<and> PR_MakeRelativeArr c (AbsTarr g) (NumTms g) \<noteq> None
        \<and> 1 \<le> NumTms g - trunc_int (M6_FreeParm g 1)
        \<and> (\<forall>i. 0 \<le> i \<and> i < NumTms g - trunc_int (M6_FreeParm g 1) \<longrightarrow>
              GlobalTac g (PASS_START + i) = v)
      \<longrightarrow> wNumTms (st (M6_ModelInit c Integral Tac0 g s))
             = NumTms g - trunc_int (M6_FreeParm g 1)
        \<and> pre_N (st (M6_ModelInit c Integral Tac0 g s)) = wNumTms (st (M6_ModelInit c Integral Tac0 g s))
        \<and> post_N (st (M6_ModelInit c Integral Tac0 g s)) = wNumTms (st (M6_ModelInit c Integral Tac0 g s))
        \<and> wNumTms (st (M6_ModelInit c Integral Tac0 g s))
             \<le> pre_N (st (M6_ModelInit c Integral Tac0 g s))
               + post_N (st (M6_ModelInit c Integral Tac0 g s)))"
proof (intro conjI impI)
  show "res (M6_ModelInit c Integral Tac0 g s) =
     (NumRoiTac g \<le> 1 \<and> PR_MakeRelativeArr c (AbsTarr g) (NumTms g) \<noteq> None
      \<and> (NumRoiTac g = 1 \<longrightarrow>
           \<not> IsAir_ByMin c (Tac_loop (RoiTacArr g 0) (NumTms g) 0 Tac0) (of_int (NumTms g))))"
    by (rule M6_ModelInit_res)
next
  assume h: "NumRoiTac g \<le> 1 \<and> PR_MakeRelativeArr c (AbsTarr g) (NumTms g) \<noteq> None
        \<and> 1 \<le> NumTms g - trunc_int (M6_FreeParm g 1)
        \<and> (\<forall>i. 0 \<le> i \<and> i < NumTms g - trunc_int (M6_FreeParm g 1) \<longrightarrow>
              GlobalTac g (PASS_START + i) = v)"
  then have a: "NumRoiTac g \<le> 1"
    and b: "PR_MakeRelativeArr c (AbsTarr g) (NumTms g) \<noteq> None"
    and p: "1 \<le> NumTms g - trunc_int (M6_FreeParm g 1)"
    and f: "\<forall>i. 0 \<le> i \<and> i < NumTms g - trunc_int (M6_FreeParm g 1) \<longrightarrow>
              GlobalTac g (PASS_START + i) = v"
    by blast+
  note F = M6_ModelInit_flat [OF a b refl refl p f, of Integral Tac0 s]
  from F show "wNumTms (st (M6_ModelInit c Integral Tac0 g s))
             = NumTms g - trunc_int (M6_FreeParm g 1)" by blast
  from F show "pre_N (st (M6_ModelInit c Integral Tac0 g s))
      = wNumTms (st (M6_ModelInit c Integral Tac0 g s))" by simp
  from F show "post_N (st (M6_ModelInit c Integral Tac0 g s))
      = wNumTms (st (M6_ModelInit c Integral Tac0 g s))" by simp
  from F p show "wNumTms (st (M6_ModelInit c Integral Tac0 g s))
             \<le> pre_N (st (M6_ModelInit c Integral Tac0 g s))
               + post_N (st (M6_ModelInit c Integral Tac0 g s))" by simp
qed

theorem M6_ModelInit_degenerate_not_detected_witness:
  "NumRoiTac framework8 \<le> 1
   \<and> PR_MakeRelativeArr collab0 (AbsTarr framework8) (NumTms framework8) \<noteq> None
   \<and> 1 \<le> NumTms framework8 - trunc_int (M6_FreeParm framework8 1)
   \<and> GlobalTac framework8 (PASS_START + 0) = 7 \<and> GlobalTac framework8 (PASS_START + 4) = 7
   \<and> res (M6_ModelInit collab0 0 (\<lambda>t. 0) framework8 statics0) = True
   \<and> pre_N (st (M6_ModelInit collab0 0 (\<lambda>t. 0) framework8 statics0)) = 5
   \<and> post_N (st (M6_ModelInit collab0 0 (\<lambda>t. 0) framework8 statics0)) = 5"
proof -
  let ?out = "M6_ModelInit collab0 0 (\<lambda>t. 0) framework8 statics0"
  have a: "NumRoiTac framework8 \<le> 1" "NumRoiTac framework8 \<noteq> 1"
    by (simp_all add: framework8_def)
  have b: "PR_MakeRelativeArr collab0 (AbsTarr framework8) (NumTms framework8) \<noteq> None"
    by (simp add: collab0_def)
  have n: "NumTms framework8 - trunc_int (M6_FreeParm framework8 1) = 5"
    by (simp add: framework8_def arr_def trunc_int_def)
  have f: "\<forall>i. 0 \<le> i \<and> i < NumTms framework8 - trunc_int (M6_FreeParm framework8 1) \<longrightarrow>
              GlobalTac framework8 (PASS_START + i) = 7"
  proof (intro allI impI)
    fix i :: int
    assume "0 \<le> i \<and> i < NumTms framework8 - trunc_int (M6_FreeParm framework8 1)"
    then have "i = 0 \<or> i = 1 \<or> i = 2 \<or> i = 3 \<or> i = 4" unfolding n by arith
    then show "GlobalTac framework8 (PASS_START + i) = 7"
      by (auto simp: framework8_def global8_def arr_def PASS_START_def)
  qed
  note T = M6_ModelInit_degenerate_not_detected [of collab0 0 "\<lambda>t. 0" framework8 statics0 7]
  from T a b have r: "res ?out = True" by blast
  from T a(1) b n f have w: "wNumTms (st ?out) = 5 \<and> pre_N (st ?out) = wNumTms (st ?out)
      \<and> post_N (st ?out) = wNumTms (st ?out)" by simp
  have g: "GlobalTac framework8 (PASS_START + 0) = 7" "GlobalTac framework8 (PASS_START + 4) = 7"
    by (simp_all add: framework8_def global8_def arr_def PASS_START_def)
  from a b n r w g show ?thesis by simp
qed

text \<open>C8, as stated, fails: on the flat global curve of \<open>framework8\<close> every read lies
  inside the curve, the scans consume the whole working length
  (\<open>pre_N = post_N = wNumTms = 5\<close>), and \<^verbatim>\<open>M6_ModelInit\<close> returns \<^verbatim>\<open>true\<close>.\<close>

theorem M6_ModelInit_flat_global_succeeds:
  "res (M6_ModelInit collab0 0 (\<lambda>t. 0) framework8 statics0) = True
   \<and> wNumTms (st (M6_ModelInit collab0 0 (\<lambda>t. 0) framework8 statics0)) = 5
   \<and> pre_N (st (M6_ModelInit collab0 0 (\<lambda>t. 0) framework8 statics0)) = 5
   \<and> post_N (st (M6_ModelInit collab0 0 (\<lambda>t. 0) framework8 statics0)) = 5
   \<and> wNumTms (st (M6_ModelInit collab0 0 (\<lambda>t. 0) framework8 statics0))
       \<le> pre_N (st (M6_ModelInit collab0 0 (\<lambda>t. 0) framework8 statics0))
         + post_N (st (M6_ModelInit collab0 0 (\<lambda>t. 0) framework8 statics0))
   \<and> reads (M6_ModelInit collab0 0 (\<lambda>t. 0) framework8 statics0)
       = [2, 6, 3, 4, 5, 6, 3, 4, 5, 6, 5, 4, 3, 2]"
  by code_simp

text \<open>C5. With one reference ROI that is not classified as air,
  \<^verbatim>\<open>WhiteMatterNorm\<close> is \<open>ONE / Integral\<close> for whatever the local \<^verbatim>\<open>Integral\<close>
  holds: the call that would compute the integral of the reference curve is commented
  out, so the factor does not depend on the reference curve. On \<open>framework5\<close> the
  factor is \<open>1/7\<close> when the local holds \<open>7\<close> and \<open>1/3\<close> when it holds \<open>3\<close>.\<close>

theorem M6_ModelInit_norm_uninitialised:
  assumes "NumRoiTac g = 1"
    and "PR_MakeRelativeArr c (AbsTarr g) (NumTms g) \<noteq> None"
    and "\<not> IsAir_ByMin c (Tac_loop (RoiTacArr g 0) (NumTms g) 0 Tac0) (of_int (NumTms g))"
  shows "res (M6_ModelInit c Integral Tac0 g s) = True
    \<and> WhiteMatterNorm (st (M6_ModelInit c Integral Tac0 g s)) = 1 / Integral"
  using assms by (simp add: M6_ModelInit_def Let_def split_def ONE_def)

theorem M6_ModelInit_norm_uninitialised_witness:
  "NumRoiTac framework5 = 1
   \<and> PR_MakeRelativeArr collab0 (AbsTarr framework5) (NumTms framework5) \<noteq> None
   \<and> (IsAir_ByMin collab0 (Tac_loop (RoiTacArr framework5 0) (NumTms framework5) 0 (\<lambda>t. 0))
         (of_int (NumTms framework5))) = False
   \<and> WhiteMatterNorm (st (M6_ModelInit collab0 7 (\<lambda>t. 0) framework5 statics0)) = 1 / 7
   \<and> WhiteMatterNorm (st (M6_ModelInit collab0 3 (\<lambda>t. 0) framework5 statics0)) = 1 / 3"
proof -
  have a: "NumRoiTac framework5 = 1" by (simp add: framework5_def)
  have b: "PR_MakeRelativeArr collab0 (AbsTarr framework5) (NumTms framework5) \<noteq> None"
    by (simp add: collab0_def)
  have c: "\<not> IsAir_ByMin collab0 (Tac_loop (RoiTacArr framework5 0) (NumTms framework5) 0 (\<lambda>t. 0))
         (of_int (NumTms framework5))"
    by (simp add: collab0_def)
  from M6_ModelInit_norm_uninitialised [OF a b c, of 7 statics0]
    M6_ModelInit_norm_uninitialised [OF a b c, of 3 statics0]
  show ?thesis using a b c by simp
qed

section \<open>The per-voxel pipeline\<close>

lemma CorrTac_loop_char:
  "CorrTac_loop wTac wTarr sf b_stime b_end t C u =
     (if t \<le> u \<and> u \<le> b_end then wTac u - sf * (wTarr u - b_stime) else C u)"
proof (induction wTac wTarr sf b_stime b_end t C rule: CorrTac_loop.induct)
  case (1 wTac wTarr sf b_stime b_end t CorrTac)
  show ?case
  proof (cases "t \<le> b_end")
    case False
    then show ?thesis by (simp add: CorrTac_loop.simps [of wTac wTarr sf b_stime b_end t])
  next
    case True
    define C' where "C' = CorrTac(t := wTac t - sf * (wTarr t - b_stime))"
    have step: "CorrTac_loop wTac wTarr sf b_stime b_end t CorrTac
        = CorrTac_loop wTac wTarr sf b_stime b_end (t + 1) C'"
      unfolding C'_def using True by (subst CorrTac_loop.simps) simp
    have ih: "CorrTac_loop wTac wTarr sf b_stime b_end (t + 1) C' u
        = (if t + 1 \<le> u \<and> u \<le> b_end then wTac u - sf * (wTarr u - b_stime) else C' u)"
      unfolding C'_def by (rule "1.IH" [OF True])
    have c: "C' u = (if u = t then wTac t - sf * (wTarr t - b_stime) else CorrTac u)"
      by (simp add: C'_def)
    show ?thesis unfolding step ih c using True by auto
  qed
qed

lemma Cx_loop_char:
  "Cx_loop CorrTac S0 n t Cx u =
     (if t \<le> u \<and> u < n then
        (if CorrTac u / S0 > 1 / 100 \<and> CorrTac u / S0 < ONE then - ln (CorrTac u / S0) else ZERO)
      else Cx u)"
proof (induction CorrTac S0 n t Cx rule: Cx_loop.induct)
  case (1 CorrTac S0 n t Cx)
  define f where "f = (\<lambda>u. if CorrTac u / S0 > 1 / 100 \<and> CorrTac u / S0 < ONE
        then - ln (CorrTac u / S0) else ZERO)"
  have goal: "Cx_loop CorrTac S0 n t Cx u = (if t \<le> u \<and> u < n then f u else Cx u)"
  proof (cases "t < n")
    case False
    then show ?thesis by (simp add: Cx_loop.simps [of CorrTac S0 n t])
  next
    case True
    define C' where "C' = Cx(t := f t)"
    have step: "Cx_loop CorrTac S0 n t Cx = Cx_loop CorrTac S0 n (t + 1) C'"
      unfolding C'_def f_def using True by (subst Cx_loop.simps) (simp add: Let_def)
    have ih: "Cx_loop CorrTac S0 n (t + 1) C' u
        = (if t + 1 \<le> u \<and> u < n then f u else C' u)"
      unfolding C'_def f_def by (rule "1.IH" [OF True refl])
    have c: "C' u = (if u = t then f t else Cx u)" by (simp add: C'_def)
    show ?thesis unfolding step ih c using True by auto
  qed
  then show ?case unfolding f_def .
qed

text \<open>C9. The baseline correction computes the slope
  \<open>(post_bl - pre_bl) / (wTarr[b_end] - wTarr[b_start])\<close> and leaves in \<open>CorrTac\<close>, at
  every index \<open>t\<close> of \<open>[b_start, b_end]\<close>, the value
  \<open>wTac[t] - slope * (wTarr[t] - wTarr[b_start])\<close>; every other cell of the buffer
  keeps what it held.\<close>

theorem BaselineCorrection_segment:
  "BaselineCorrection wTac wTarr pre_bl post_bl b_start b_end CorrTac0 t =
     (if b_start \<le> t \<and> t \<le> b_end then
        wTac t - (post_bl - pre_bl) / (wTarr b_end - wTarr b_start) * (wTarr t - wTarr b_start)
      else CorrTac0 t)"
  by (simp add: BaselineCorrection_def Let_def CorrTac_loop_char)

text \<open>C4. For every sample \<open>t\<close> of the working range, with
  \<open>ratio = CorrTac[t] / S0\<close>: the concentration is \<open>- ln ratio\<close>, a positive number,
  when \<open>0.01 < ratio < 1\<close>, and \<open>0\<close> otherwise, in particular at \<open>ratio = 1\<close>; it
  is never negative and always below \<open>ln 100\<close>. (\<^verbatim>\<open>M6_ModelFunc\<close> passes \<open>pre_bl\<close>
  for \<open>S0\<close>.)\<close>

theorem Cx_loop_clamp:
  assumes "0 \<le> t" and "t < n" and "ratio = CorrTac t / S0"
    and "Cx = Cx_loop CorrTac S0 n 0 Cx0"
  shows "(1 / 100 < ratio \<and> ratio < 1 \<longrightarrow> Cx t = - ln ratio \<and> 0 < Cx t)
    \<and> (ratio \<le> 1 / 100 \<or> 1 \<le> ratio \<longrightarrow> Cx t = 0)
    \<and> (ratio = 1 \<longrightarrow> Cx t = 0)
    \<and> 0 \<le> Cx t \<and> Cx t < ln 100"
proof -
  have v: "Cx t = (if 1 / 100 < ratio \<and> ratio < 1 then - ln ratio else 0)"
    unfolding assms(3) assms(4) Cx_loop_char ONE_def ZERO_def using assms(1) assms(2) by simp
  have pos: "0 < - ln ratio" "- ln ratio < ln 100" if "1 / 100 < ratio" "ratio < 1"
  proof -
    have r0: "0 < ratio" using that by simp
    show "0 < - ln ratio" using that r0 by simp
    have "(0::real) < 1 / 100" by simp
    then have "ln (1 / 100) < ln ratio" using that(1) r0 by (simp only: ln_less_cancel_iff)
    moreover have "ln (1 / 100 :: real) = - ln 100" by (simp add: ln_div)
    ultimately show "- ln ratio < ln 100" by simp
  qed
  have l: "(0::real) < ln 100" by simp
  show ?thesis
  proof (cases "1 / 100 < ratio \<and> ratio < 1")
    case True
    then show ?thesis using v pos by auto
  next
    case False
    then show ?thesis using v l by auto
  qed
qed

theorem Cx_loop_clamp_witness:
  "(0::int) \<le> 0 \<and> (1::int) < 4
   \<and> 1 / 100 < arr corr4 0 / 100 \<and> arr corr4 0 / 100 < 1
   \<and> Cx_loop (arr corr4) 100 4 0 (\<lambda>t. 0) 0 = - ln (arr corr4 0 / 100)
   \<and> arr corr4 1 / 100 = 1
   \<and> Cx_loop (arr corr4) 100 4 0 (\<lambda>t. 0) 1 = 0
   \<and> 1 \<le> arr corr4 2 / 100
   \<and> Cx_loop (arr corr4) 100 4 0 (\<lambda>t. 0) 2 = 0
   \<and> arr corr4 3 / 100 \<le> 1 / 100
   \<and> Cx_loop (arr corr4) 100 4 0 (\<lambda>t. 0) 3 = 0"
proof -
  have r: "arr corr4 0 / 100 = 1 / 2" "arr corr4 1 / 100 = 1" "arr corr4 2 / 100 = 3 / 2"
    "arr corr4 3 / 100 = 1 / 200"
    by (simp_all add: arr_def corr4_def)
  note T0 = Cx_loop_clamp [of 0 4 "arr corr4 0 / 100" "arr corr4" 100 _ "\<lambda>t. 0", OF _ _ refl refl]
  note T1 = Cx_loop_clamp [of 1 4 "arr corr4 1 / 100" "arr corr4" 100 _ "\<lambda>t. 0", OF _ _ refl refl]
  note T2 = Cx_loop_clamp [of 2 4 "arr corr4 2 / 100" "arr corr4" 100 _ "\<lambda>t. 0", OF _ _ refl refl]
  note T3 = Cx_loop_clamp [of 3 4 "arr corr4 3 / 100" "arr corr4" 100 _ "\<lambda>t. 0", OF _ _ refl refl]
  have a: "Cx_loop (arr corr4) 100 4 0 (\<lambda>t. 0) 0 = - ln (arr corr4 0 / 100)"
    using T0 r(1) by simp
  have b: "Cx_loop (arr corr4) 100 4 0 (\<lambda>t. 0) 1 = 0" using T1 r(2) by simp
  have c: "Cx_loop (arr corr4) 100 4 0 (\<lambda>t. 0) 2 = 0" using T2 r(3) by simp
  have d: "Cx_loop (arr corr4) 100 4 0 (\<lambda>t. 0) 3 = 0" using T3 r(4) by simp
  show ?thesis unfolding a b c d using r by simp
qed

text \<open>\<^verbatim>\<open>M6_ModelFunc\<close> on an air voxel, and on a voxel that is not air.\<close>

lemma M6_ModelFunc_air:
  "IsAir_ByMin c Tac (AirThresh s) \<Longrightarrow> M6_ModelFunc c CorrTac0 Cx0 g s Tac = Some (False, [])"
  by (simp add: M6_ModelFunc_def)

lemma M6_ModelFunc_window:
  assumes "\<not> IsAir_ByMin c Tac (AirThresh s)"
    and "wTac = (\<lambda>t. Tac (SkipTimes s + t))"
    and "n = NumTms g - SkipTimes s"
    and "PR_ArrStats c wTac (pre_N s) = (pre_bl, noise)"
    and "post_bl = fst (PR_ArrStats c (\<lambda>t. wTac (n - post_N s + t)) (post_N s))"
    and "FindBolusPosition s wTac n noise pre_bl post_bl = (b_start, b_end)"
  shows "M6_ModelFunc c CorrTac0 Cx0 g s Tac =
    (if b_start \<ge> b_end then Some (False, [])
     else case Tarr s of
       None \<Rightarrow> None
     | Some T \<Rightarrow>
         Some (True, [Integrate b_start (b_end - b_start + 1),
           WriteOut (CalculateIntegral c
               (\<lambda>t. Cx_loop (BaselineCorrection wTac (\<lambda>t. T (SkipTimes s + t)) pre_bl post_bl
                        b_start b_end CorrTac0) pre_bl n 0 Cx0 (b_start + t))
               (\<lambda>t. T (SkipTimes s + (b_start + t))) (b_end - b_start + 1)
             * WhiteMatterNorm s)]))"
  using assms(1) assms(4) assms(6) unfolding assms(2) assms(3) assms(5)
  by (simp add: M6_ModelFunc_def Let_def split: option.splits)

text \<open>With no reference ROI the normalisation factor is \<open>1\<close>, so that the value
  written for an accepted voxel is the integral itself.\<close>

lemma M6_ModelInit_no_reference:
  assumes "NumRoiTac g = 0"
    and "PR_MakeRelativeArr c (AbsTarr g) (NumTms g) \<noteq> None"
  shows "res (M6_ModelInit c Integral Tac0 g s) = True
    \<and> WhiteMatterNorm (st (M6_ModelInit c Integral Tac0 g s)) = 1"
  using assms by (auto simp add: M6_ModelInit_def Let_def split_def ONE_def)

text \<open>C6. After a successful initialisation, a voxel that the air classifier
  reports as background at the threshold \<open>M6_FreeParm[0] * demp_NoiseLevel\<close>, or
  whose detected window has \<open>b_start \<ge> b_end\<close>, makes \<^verbatim>\<open>M6_ModelFunc\<close> return
  \<^verbatim>\<open>false\<close> without calling \<^verbatim>\<open>CalculateIntegral\<close> and without writing to
  \<^verbatim>\<open>OutParm\<close>.\<close>

theorem M6_ModelFunc_rejection:
  assumes "out = M6_ModelInit c Integral Tac0 g s0" and "res out" and "s = st out"
    and "wTac = (\<lambda>t. Tac (SkipTimes s + t))"
    and "n = NumTms g - SkipTimes s"
    and "PR_ArrStats c wTac (pre_N s) = (pre_bl, noise)"
    and "post_bl = fst (PR_ArrStats c (\<lambda>t. wTac (n - post_N s + t)) (post_N s))"
    and "FindBolusPosition s wTac n noise pre_bl post_bl = (b_start, b_end)"
    and "IsAir_ByMin c Tac (M6_FreeParm g 0 * demp_NoiseLevel g) \<or> b_start \<ge> b_end"
  shows "M6_ModelFunc c CorrTac0 Cx0 g s Tac = Some (False, [])"
proof -
  have r: "NumRoiTac g \<le> 1" "PR_MakeRelativeArr c (AbsTarr g) (NumTms g) \<noteq> None"
    using assms(2) unfolding assms(1) M6_ModelInit_res by blast+
  have "AirThresh (st (M6_ModelInit c Integral Tac0 g s0)) = M6_FreeParm g 0 * demp_NoiseLevel g"
    using r by (auto simp add: M6_ModelInit_def Let_def split_def)
  then have at: "AirThresh s = M6_FreeParm g 0 * demp_NoiseLevel g"
    unfolding assms(3) assms(1) .
  show ?thesis
  proof (cases "IsAir_ByMin c Tac (AirThresh s)")
    case True
    then show ?thesis by (rule M6_ModelFunc_air)
  next
    case False
    then have "b_start \<ge> b_end" using assms(9) at by simp
    then show ?thesis
      using M6_ModelFunc_window [OF False assms(4) assms(5) assms(6) assms(7) assms(8)]
      by simp
  qed
qed

theorem M6_ModelFunc_rejection_witness:
  "res (M6_ModelInit collab0 0 (\<lambda>t. 0) framework7 statics0)
   \<and> PR_ArrStats collab0 (\<lambda>t. arr voxel6 (SkipTimes statics7 + t)) (pre_N statics7) = (100, 0)
   \<and> FindBolusPosition statics7 (\<lambda>t. arr voxel6 (SkipTimes statics7 + t))
        (NumTms framework7 - SkipTimes statics7) 0 100
        (fst (PR_ArrStats collab0
           (\<lambda>t. arr voxel6 (SkipTimes statics7
                   + (NumTms framework7 - SkipTimes statics7 - post_N statics7 + t)))
           (post_N statics7))) = (1, 1)
   \<and> M6_ModelFunc collab0 (\<lambda>t. 0) (\<lambda>t. 0) framework7 statics7 (arr voxel6) = Some (False, [])"
proof -
  have a: "res (M6_ModelInit collab0 0 (\<lambda>t. 0) framework7 statics0)"
    by code_simp
  have b: "PR_ArrStats collab0 (\<lambda>t. arr voxel6 (SkipTimes statics7 + t)) (pre_N statics7)
      = (100, 0)"
    by code_simp
  have c: "FindBolusPosition statics7 (\<lambda>t. arr voxel6 (SkipTimes statics7 + t))
        (NumTms framework7 - SkipTimes statics7) 0 100
        (fst (PR_ArrStats collab0
           (\<lambda>t. arr voxel6 (SkipTimes statics7
                   + (NumTms framework7 - SkipTimes statics7 - post_N statics7 + t)))
           (post_N statics7))) = (1, 1)"
    by code_simp
  have d: "IsAir_ByMin collab0 (arr voxel6) (M6_FreeParm framework7 0 * demp_NoiseLevel framework7)
      \<or> (1::int) \<ge> 1" by simp
  from M6_ModelFunc_rejection [OF refl a statics7_def refl refl b refl c d]
  show ?thesis using a b c by simp
qed

section \<open>Further properties\<close>

text \<open>The end index of every window is below \<open>wNumTms - post_N\<close>: the post-baseline
  window always lies outside the bolus window.\<close>

theorem FindBolusPosition_end_bound:
  "snd (FindBolusPosition s wTac n noise pre_bl post_bl) < n - post_N s"
  by (simp add: FindBolusPosition_def Let_def split_def)

lemma M6_ModelInit_Tarr:
  assumes "NumRoiTac g \<le> 1"
    and "PR_MakeRelativeArr c (AbsTarr g) (NumTms g) = Some T"
  shows "Tarr (st (M6_ModelInit c Integral Tac0 g s)) = Some T"
  using assms by (auto simp add: M6_ModelInit_def Let_def split_def)

text \<open>With no reference ROI, after initialisation the normalisation factor is \<open>1\<close>
  and an accepted voxel (not air, \<open>b_start < b_end\<close>) makes \<^verbatim>\<open>M6_ModelFunc\<close> return
  \<^verbatim>\<open>true\<close>, call \<^verbatim>\<open>CalculateIntegral\<close> once on \<open>b_end - b_start + 1\<close> samples from
  \<open>b_start\<close>, and write exactly the integral it returned.\<close>

theorem M6_ModelFunc_no_reference_output:
  assumes "NumRoiTac g = 0"
    and "PR_MakeRelativeArr c (AbsTarr g) (NumTms g) = Some T"
    and "s = st (M6_ModelInit c Integral Tac0 g s0)"
    and "\<not> IsAir_ByMin c Tac (AirThresh s)"
    and "wTac = (\<lambda>t. Tac (SkipTimes s + t))"
    and "n = NumTms g - SkipTimes s"
    and "PR_ArrStats c wTac (pre_N s) = (pre_bl, noise)"
    and "post_bl = fst (PR_ArrStats c (\<lambda>t. wTac (n - post_N s + t)) (post_N s))"
    and "FindBolusPosition s wTac n noise pre_bl post_bl = (b_start, b_end)"
    and "b_start < b_end"
    and "Intg = CalculateIntegral c
               (\<lambda>t. Cx_loop (BaselineCorrection wTac (\<lambda>t. T (SkipTimes s + t)) pre_bl post_bl
                        b_start b_end CorrTac0) pre_bl n 0 Cx0 (b_start + t))
               (\<lambda>t. T (SkipTimes s + (b_start + t))) (b_end - b_start + 1)"
  shows "WhiteMatterNorm s = 1
    \<and> M6_ModelFunc c CorrTac0 Cx0 g s Tac
        = Some (True, [Integrate b_start (b_end - b_start + 1), WriteOut Intg])"
proof -
  have al: "PR_MakeRelativeArr c (AbsTarr g) (NumTms g) \<noteq> None" using assms(2) by simp
  have w: "WhiteMatterNorm s = 1"
    unfolding assms(3) using M6_ModelInit_no_reference [OF assms(1) al] by blast
  have roi: "NumRoiTac g \<le> 1" using assms(1) by simp
  have t: "Tarr s = Some T"
    unfolding assms(3) by (rule M6_ModelInit_Tarr [OF roi assms(2)])
  have "M6_ModelFunc c CorrTac0 Cx0 g s Tac
        = Some (True, [Integrate b_start (b_end - b_start + 1), WriteOut (Intg * WhiteMatterNorm s)])"
    using M6_ModelFunc_window [OF assms(4) assms(5) assms(6) assms(7) assms(8) assms(9),
        of CorrTac0 Cx0] assms(10) t
    unfolding assms(11) by simp
  with w show ?thesis by simp
qed

theorem M6_ModelFunc_no_reference_output_witness:
  "NumRoiTac framework12 = 0
   \<and> pre_N statics12 = 3 \<and> post_N statics12 = 4 \<and> SkipTimes statics12 = 2
   \<and> FindBolusPosition statics12 (\<lambda>t. arr global12 (SkipTimes statics12 + t))
        (NumTms framework12 - SkipTimes statics12) 0 100
        (fst (PR_ArrStats collab0
           (\<lambda>t. arr global12 (SkipTimes statics12
                   + (NumTms framework12 - SkipTimes statics12 - post_N statics12 + t)))
           (post_N statics12))) = (3, 7)
   \<and> WhiteMatterNorm statics12 = 1
   \<and> M6_ModelFunc collab0 (\<lambda>t. 0) (\<lambda>t. 0) framework12 statics12 (arr global12)
       = Some (True, [Integrate 3 5, WriteOut 0])"
proof -
  have a: "NumRoiTac framework12 = 0" by (simp add: framework12_def)
  have b: "PR_MakeRelativeArr collab0 (AbsTarr framework12) (NumTms framework12)
      = Some (\<lambda>t. AbsTarr framework12 t - AbsTarr framework12 0)"
    by (simp add: collab0_def)
  have c: "\<not> IsAir_ByMin collab0 (arr global12) (AirThresh statics12)"
    by (simp add: collab0_def)
  have d: "PR_ArrStats collab0 (\<lambda>t. arr global12 (SkipTimes statics12 + t)) (pre_N statics12)
      = (100, 0)"
    by code_simp
  have e: "FindBolusPosition statics12 (\<lambda>t. arr global12 (SkipTimes statics12 + t))
        (NumTms framework12 - SkipTimes statics12) 0 100
        (fst (PR_ArrStats collab0
           (\<lambda>t. arr global12 (SkipTimes statics12
                   + (NumTms framework12 - SkipTimes statics12 - post_N statics12 + t)))
           (post_N statics12))) = (3, 7)"
    by code_simp
  have f: "(3::int) < 7" by simp
  have p: "pre_N statics12 = 3" "post_N statics12 = 4" "SkipTimes statics12 = 2"
    by code_simp+
  from M6_ModelFunc_no_reference_output [OF a b statics12_def c refl refl d refl e f refl,
      of "\<lambda>t. 0" "\<lambda>t. 0"]
  show ?thesis using a e p by (simp add: collab0_def)
qed

end
